theory Spec2Isabelle
  imports Complex_Main "HOL-Library.Multiset"
begin

section \<open>Data model of servidor\_sentimentos.py\<close>

text \<open>
  Python values as they occur in the server.  A \<open>str\<close> is a list of code points; every
  literal of the source lies in Latin-1, so one \<open>char\<close> stands for one code point and the
  accented letters are written by their code.  A \<open>float\<close> is modelled by the real number
  it denotes (the scores are probabilities, never NaN), so the comparisons of the source
  are the comparisons of \<open>real\<close>.  What floating point computes inexactly, namely
  \<open>x * y\<close>, \<open>round(x, n)\<close> and the text \<open>str(x)\<close> that an f-string inserts, is not fixed
  here: the three operations are the fields of \<open>py_float\<close>, and every function that
  formats a score takes them as a parameter.
\<close>

datatype error = IndexError

record py_float =
  mul_float :: "real \<Rightarrow> real \<Rightarrow> real"
  round_float :: "real \<Rightarrow> int \<Rightarrow> real"
  str_float :: "real \<Rightarrow> string"

text \<open>One entry of the classifier's answer: \<open>{'label': ..., 'score': ...}\<close>.\<close>

record resultado =
  label :: string
  score :: real

text \<open>
  The value that \<open>json.dumps\<close> serialises.  A dict keeps its keys in insertion order, so
  it is an association list.
\<close>

datatype json =
    JInt int
  | JFloat real
  | JStr string
  | JList "json list"
  | JDict "(string \<times> json) list"

text \<open>
  The pipeline object: called on one text it returns a list of lists, of which the tools
  read element 0.
\<close>

type_synonym modelo = "string \<Rightarrow> resultado list list"

text \<open>
  The module's mutable state: the global \<open>classificador\<close>, and what \<open>print\<close> has
  written so far.
\<close>

record 'm estado =
  classificador :: "'m option"
  stdout :: "string list"

definition estado_inicial :: "'m estado" where
  "estado_inicial = \<lparr>classificador = None, stdout = []\<rparr>"

subsection \<open>Python primitives\<close>

text \<open>\<open>xs[0]\<close>: raises IndexError on the empty list.\<close>

definition primeiro :: "'a list \<Rightarrow> error + 'a" where
  "primeiro xs = (case xs of [] \<Rightarrow> Inl IndexError | x # _ \<Rightarrow> Inr x)"

text \<open>\<open>xs[:k]\<close>: a negative bound counts from the end, and the slice never raises.\<close>

definition fatiar :: "'a list \<Rightarrow> int \<Rightarrow> 'a list" where
  "fatiar xs k =
     (if 0 \<le> k then take (nat k) xs else take (nat (int (length xs) + k)) xs)"

text \<open>
  \<open>sorted(rs, key=lambda x: x['score'], reverse=True)\<close>: descending by score, and stable
  (entries of equal score keep their order, also with \<open>reverse=True\<close>).
\<close>

definition sorted_desc :: "resultado list \<Rightarrow> resultado list" where
  "sorted_desc rs = sort_key (\<lambda>x. - score x) rs"

text \<open>Reading a response: the value of key \<open>k\<close> of a dict, if it has one.\<close>

definition campo :: "string \<Rightarrow> json \<Rightarrow> json option" where
  "campo k j = (case j of JDict kvs \<Rightarrow> map_of kvs k | _ \<Rightarrow> None)"

text \<open>The number of entries of a list field of a response, when the tool returned one.\<close>

definition tamanho_campo :: "string \<Rightarrow> error + json \<Rightarrow> nat option" where
  "tamanho_campo k res =
     (case res of
        Inl e \<Rightarrow> None
      | Inr r \<Rightarrow> (case campo k r of Some (JList xs) \<Rightarrow> Some (length xs) | _ \<Rightarrow> None))"

subsection \<open>The translation table\<close>

abbreviation c_cedilha :: char where "c_cedilha \<equiv> CHR 0xE7"
abbreviation a_til :: char where "a_til \<equiv> CHR 0xE3"
abbreviation i_agudo :: char where "i_agudo \<equiv> CHR 0xED"
abbreviation e_agudo :: char where "e_agudo \<equiv> CHR 0xE9"

definition TRADUCAO_EMOCOES :: "(string \<times> string) list" where
  "TRADUCAO_EMOCOES =
    [(''admiration'', ''admira'' @ [c_cedilha, a_til] @ ''o''),
     (''amusement'', ''divers'' @ [a_til] @ ''o''),
     (''anger'', ''raiva''),
     (''annoyance'', ''irrita'' @ [c_cedilha, a_til] @ ''o''),
     (''approval'', ''aprova'' @ [c_cedilha, a_til] @ ''o''),
     (''caring'', ''cuidado''),
     (''confusion'', ''confus'' @ [a_til] @ ''o''),
     (''curiosity'', ''curiosidade''),
     (''desire'', ''desejo''),
     (''disappointment'', ''decep'' @ [c_cedilha, a_til] @ ''o''),
     (''disapproval'', ''desaprova'' @ [c_cedilha, a_til] @ ''o''),
     (''disgust'', ''nojo''),
     (''embarrassment'', ''vergonha''),
     (''excitement'', ''empolga'' @ [c_cedilha, a_til] @ ''o''),
     (''fear'', ''medo''),
     (''gratitude'', ''gratid'' @ [a_til] @ ''o''),
     (''grief'', ''tristeza profunda''),
     (''joy'', ''alegria''),
     (''love'', ''amor''),
     (''nervousness'', ''nervosismo''),
     (''optimism'', ''otimismo''),
     (''pride'', ''orgulho''),
     (''realization'', ''percep'' @ [c_cedilha, a_til] @ ''o''),
     (''relief'', ''al'' @ [i_agudo] @ ''vio''),
     (''remorse'', ''remorso''),
     (''sadness'', ''tristeza''),
     (''surprise'', ''surpresa''),
     (''neutral'', ''neutro'')]"

text \<open>\<open>TRADUCAO_EMOCOES.get(l, l)\<close>.\<close>

definition traduzir :: "string \<Rightarrow> string" where
  "traduzir l = (case map_of TRADUCAO_EMOCOES l of Some t \<Rightarrow> t | None \<Rightarrow> l)"

subsection \<open>Formatting a score\<close>

text \<open>\<open>round(s * 100, 2)\<close>.\<close>

definition probabilidade :: "py_float \<Rightarrow> real \<Rightarrow> real" where
  "probabilidade fl s = round_float fl (mul_float fl s 100) 2"

text \<open>The f-string \<open>f"{round(s * 100, 2)}%"\<close>.\<close>

definition porcentagem :: "py_float \<Rightarrow> real \<Rightarrow> string" where
  "porcentagem fl s = str_float fl (round_float fl (mul_float fl s 100) 2) @ ''%''"

text \<open>
  The conditional expression of \<open>nivel\<close>: "alta" if \<open>s >= 0.5\<close>, else the word
  for "medium" (written with e acute) if \<open>s >= 0.1\<close>, else "baixa".
\<close>

definition nivel :: "real \<Rightarrow> string" where
  "nivel s =
     (if s \<ge> 0.5 then ''alta''
      else if s \<ge> 0.1 then ''m'' @ [e_agudo] @ ''dia''
      else ''baixa'')"

section \<open>The lazily loaded classifier\<close>

text \<open>
  The classifier is external.  Its contract on a text: element 0 of its answer holds the
  28 scored labels.
\<close>

definition contrato :: "modelo \<Rightarrow> string \<Rightarrow> bool" where
  "contrato m texto = (case m texto of [] \<Rightarrow> False | rs # _ \<Rightarrow> length rs = 28)"


text \<open>
  \<open>inicializar_modelo\<close>: \<open>pipeline\<close> is the object that the constructor call
  \<open>pipeline(task=..., model=..., top_k=None)\<close> would build.  The function returns the
  classifier and the new state.
\<close>

definition inicializar_modelo :: "'m \<Rightarrow> 'm estado \<Rightarrow> 'm \<times> 'm estado" where
  "inicializar_modelo pipeline s =
     (case classificador s of
        None \<Rightarrow>
          (pipeline,
           s\<lparr>classificador := Some pipeline,
             stdout := stdout s @
               [''Carregando modelo GoEmotions... (pode levar alguns segundos)'',
                ''Modelo carregado com sucesso!'']\<rparr>)
      | Some c \<Rightarrow> (c, s))"

section \<open>Tool 1: analisar\_sentimento\<close>

text \<open>The dict built for each entry of \<open>top_emocoes\<close>.\<close>

definition item_top :: "py_float \<Rightarrow> resultado \<Rightarrow> json" where
  "item_top fl r =
     JDict [(''emocao'', JStr (traduzir (label r))),
            (''emocao_original'', JStr (label r)),
            (''probabilidade'', JFloat (probabilidade fl (score r))),
            (''porcentagem'', JStr (porcentagem fl (score r)))]"

text \<open>
  The tool returns the dict \<open>resposta\<close> (which \<open>json.dumps\<close> then prints) or the
  exception that escapes, together with the state after \<open>inicializar_modelo\<close>.
\<close>

definition analisar_sentimento ::
  "py_float \<Rightarrow> modelo \<Rightarrow> string \<Rightarrow> int \<Rightarrow> modelo estado \<Rightarrow> (error + json) \<times> modelo estado"
where
  "analisar_sentimento fl pipeline texto top_k s =
     (case inicializar_modelo pipeline s of (modelo, s') \<Rightarrow>
        (case primeiro (modelo texto) of
           Inl e \<Rightarrow> (Inl e, s')
         | Inr resultados \<Rightarrow>
             (let resultados_ordenados = sorted_desc resultados;
                  top_resultados = fatiar resultados_ordenados top_k
              in case primeiro top_resultados of
                   Inl e \<Rightarrow> (Inl e, s')
                 | Inr dominante \<Rightarrow>
                     (Inr (JDict
                        [(''texto_analisado'', JStr texto),
                         (''total_emocoes'', JInt (int (length resultados))),
                         (''top_emocoes'', JList (map (item_top fl) top_resultados)),
                         (''emocao_dominante'', JStr (traduzir (label dominante))),
                         (''emocao_dominante_original'', JStr (label dominante)),
                         (''confianca_dominante'', JStr (porcentagem fl (score dominante)))]),
                      s'))))"

section \<open>Tool 2: analisar\_sentimento\_detalhado\<close>

definition item_detalhado :: "py_float \<Rightarrow> resultado \<Rightarrow> json" where
  "item_detalhado fl r =
     JDict [(''emocao'', JStr (traduzir (label r))),
            (''emocao_original'', JStr (label r)),
            (''probabilidade'', JFloat (probabilidade fl (score r))),
            (''porcentagem'', JStr (porcentagem fl (score r))),
            (''nivel'', JStr (nivel (score r)))]"

definition analisar_sentimento_detalhado ::
  "py_float \<Rightarrow> modelo \<Rightarrow> string \<Rightarrow> modelo estado \<Rightarrow> (error + json) \<times> modelo estado"
where
  "analisar_sentimento_detalhado fl pipeline texto s =
     (case inicializar_modelo pipeline s of (modelo, s') \<Rightarrow>
        (case primeiro (modelo texto) of
           Inl e \<Rightarrow> (Inl e, s')
         | Inr resultados \<Rightarrow>
             (let resultados_ordenados = sorted_desc resultados;
                  alta_probabilidade = filter (\<lambda>r. score r \<ge> 0.5) resultados_ordenados;
                  media_probabilidade =
                    filter (\<lambda>r. 0.1 \<le> score r \<and> score r < 0.5) resultados_ordenados;
                  baixa_probabilidade = filter (\<lambda>r. score r < 0.1) resultados_ordenados
              in case primeiro resultados_ordenados of
                   Inl e \<Rightarrow> (Inl e, s')
                 | Inr dominante \<Rightarrow>
                     (Inr (JDict
                        [(''texto_analisado'', JStr texto),
                         (''emocao_dominante'', JStr (traduzir (label dominante))),
                         (''emocao_dominante_original'', JStr (label dominante)),
                         (''confianca_dominante'', JStr (porcentagem fl (score dominante))),
                         (''resumo'', JDict
                            [(''emocoes_alta_confianca'', JInt (int (length alta_probabilidade))),
                             (''emocoes_media_confianca'', JInt (int (length media_probabilidade))),
                             (''emocoes_baixa_confianca'', JInt (int (length baixa_probabilidade)))]),
                         (''todas_emocoes'', JList (map (item_detalhado fl) resultados_ordenados))]),
                      s'))))"

section \<open>Tool 3: comparar\_sentimentos\<close>

definition item_top3 :: "py_float \<Rightarrow> resultado \<Rightarrow> json" where
  "item_top3 fl r =
     JDict [(''emocao'', JStr (traduzir (label r))),
            (''emocao_original'', JStr (label r)),
            (''probabilidade'', JStr (porcentagem fl (score r)))]"

text \<open>
  The body of \<open>for idx, texto in enumerate(textos, 1)\<close>: the dict appended to
  \<open>analises\<close> for one text, or the exception of the index-0 reads.
\<close>

definition analise_de :: "py_float \<Rightarrow> modelo \<Rightarrow> int \<Rightarrow> string \<Rightarrow> error + json" where
  "analise_de fl modelo idx texto =
     (case primeiro (modelo texto) of
        Inl e \<Rightarrow> Inl e
      | Inr resultados \<Rightarrow>
          (let resultados_ordenados = sorted_desc resultados
           in case primeiro resultados_ordenados of
                Inl e \<Rightarrow> Inl e
              | Inr dominante \<Rightarrow>
                  Inr (JDict
                    [(''texto_numero'', JInt idx),
                     (''texto'', JStr texto),
                     (''emocao_dominante'', JStr (traduzir (label dominante))),
                     (''emocao_dominante_original'', JStr (label dominante)),
                     (''confianca'', JStr (porcentagem fl (score dominante))),
                     (''top_3_emocoes'',
                        JList (map (item_top3 fl) (fatiar resultados_ordenados 3)))])))"

text \<open>The loop: \<open>idx\<close> is the counter of \<open>enumerate\<close>, \<open>analises\<close> the list built so far.\<close>

fun laco_analises ::
  "py_float \<Rightarrow> modelo \<Rightarrow> int \<Rightarrow> string list \<Rightarrow> json list \<Rightarrow> error + json list"
where
  "laco_analises fl modelo idx [] analises = Inr analises"
| "laco_analises fl modelo idx (texto # resto) analises =
     (case analise_de fl modelo idx texto of
        Inl e \<Rightarrow> Inl e
      | Inr a \<Rightarrow> laco_analises fl modelo (idx + 1) resto (analises @ [a]))"

definition comparar_sentimentos ::
  "py_float \<Rightarrow> modelo \<Rightarrow> string list \<Rightarrow> modelo estado \<Rightarrow> (error + json) \<times> modelo estado"
where
  "comparar_sentimentos fl pipeline textos s =
     (case inicializar_modelo pipeline s of (modelo, s') \<Rightarrow>
        (case laco_analises fl modelo 1 textos [] of
           Inl e \<Rightarrow> (Inl e, s')
         | Inr analises \<Rightarrow>
             (Inr (JDict
                [(''total_textos_analisados'', JInt (int (length textos))),
                 (''analises'', JList analises)]),
              s')))"

section \<open>A concrete classifier\<close>

text \<open>
  An instance of the float operations (exact product, rounding to \<open>n\<close> decimals, a printer
  with two decimals) and a classifier that answers every text with the same 28 scores.
  They serve to run the tools on concrete inputs.
\<close>

definition digito :: "nat \<Rightarrow> char" where
  "digito n = ''0123456789'' ! (n mod 10)"

function decimal :: "nat \<Rightarrow> string" where
  "decimal n = (if n < 10 then [digito n] else decimal (n div 10) @ [digito n])"
  by pat_completeness auto
termination
  by (relation "measure id") auto

definition fl_exemplo :: py_float where
  "fl_exemplo =
     \<lparr>mul_float = (\<lambda>x y. x * y),
      round_float = (\<lambda>x n. of_int (round (x * 10 ^ nat n)) / 10 ^ nat n),
      str_float = (\<lambda>x. decimal (nat \<lfloor>x\<rfloor>) @ ''.'' @
                        [digito (nat \<lfloor>x * 100\<rfloor> div 10), digito (nat \<lfloor>x * 100\<rfloor>)])\<rparr>"

definition pontos_exemplo :: "real list" where
  "pontos_exemplo =
     [0.08, 0.03, 0.002, 0.004, 0.05, 0.01, 0.003, 0.006, 0.02, 0.001,
      0.002, 0.001, 0.001, 0.34, 0.001, 0.04, 0.001, 0.91, 0.12, 0.002,
      0.09, 0.03, 0.01, 0.02, 0.001, 0.003, 0.02, 0.5]"

definition resultados_exemplo :: "resultado list" where
  "resultados_exemplo =
     map (\<lambda>(l, p). \<lparr>label = l, score = p\<rparr>) (zip (map fst TRADUCAO_EMOCOES) pontos_exemplo)"

definition modelo_exemplo :: modelo where
  "modelo_exemplo texto = [resultados_exemplo]"

section \<open>Basic facts about the primitives\<close>

lemma primeiro_Nil: "primeiro [] = Inl IndexError"
  by (simp add: primeiro_def)

lemma primeiro_Cons: "primeiro (x # xs) = Inr x"
  by (simp add: primeiro_def)

lemma length_sorted_desc: "length (sorted_desc rs) = length rs"
  by (simp add: sorted_desc_def)

lemma mset_sorted_desc: "mset (sorted_desc rs) = mset rs"
  by (simp add: sorted_desc_def)

lemma set_sorted_desc: "set (sorted_desc rs) = set rs"
  by (simp add: sorted_desc_def)

lemma sorted_desc_decrescente:
  "sorted_wrt (\<lambda>a b. score b \<le> score a) (sorted_desc rs)"
proof -
  have "sorted (map (\<lambda>x. - score x) (sort_key (\<lambda>x. - score x) rs))"
    by (rule sorted_sort_key)
  then show ?thesis
    by (simp add: sorted_desc_def sorted_map)
qed

lemma fatiar_decrescente:
  "sorted_wrt (\<lambda>a b. score b \<le> score a) (fatiar (sorted_desc rs) k)"
  by (simp add: fatiar_def sorted_wrt_take sorted_desc_decrescente)

lemma length_fatiar:
  "int (length (fatiar xs k)) =
     (if 0 \<le> k then min k (int (length xs)) else max 0 (int (length xs) + k))"
  by (auto simp add: fatiar_def)

lemma fatiar_Nil_iff:
  "fatiar xs k = [] \<longleftrightarrow> xs = [] \<or> k = 0 \<or> k \<le> - int (length xs)"
  by (auto simp add: fatiar_def)

lemma length_resultados_exemplo: "length resultados_exemplo = 28"
  by (simp add: resultados_exemplo_def TRADUCAO_EMOCOES_def pontos_exemplo_def)

lemma modelo_exemplo_contrato:
  "fst (inicializar_modelo modelo_exemplo estado_inicial) texto = resultados_exemplo # []"
  by (simp add: inicializar_modelo_def estado_inicial_def modelo_exemplo_def)

section \<open>The cached classifier\<close>

lemma inicializar_modelo_carregado:
  "classificador s = Some c \<Longrightarrow> inicializar_modelo p s = (c, s)"
  by (simp add: inicializar_modelo_def)

lemma classificador_inicializar_modelo:
  "classificador (snd (inicializar_modelo p s)) = Some (fst (inicializar_modelo p s))"
  by (cases "classificador s") (simp_all add: inicializar_modelo_def)

text \<open>The tools change the state through \<open>inicializar_modelo\<close> only.\<close>

lemma snd_analisar_sentimento:
  "snd (analisar_sentimento fl p texto k s) = snd (inicializar_modelo p s)"
  by (cases "inicializar_modelo p s")
     (simp add: analisar_sentimento_def Let_def split: sum.splits)

lemma snd_analisar_sentimento_detalhado:
  "snd (analisar_sentimento_detalhado fl p texto s) = snd (inicializar_modelo p s)"
  by (cases "inicializar_modelo p s")
     (simp add: analisar_sentimento_detalhado_def Let_def split: sum.splits)

lemma snd_comparar_sentimentos:
  "snd (comparar_sentimentos fl p textos s) = snd (inicializar_modelo p s)"
  by (cases "inicializar_modelo p s")
     (simp add: comparar_sentimentos_def split: sum.splits)

text \<open>
  C8.  After a call of \<open>inicializar_modelo\<close> the global holds the classifier that the
  call returned.  Every later call, whatever object the constructor would build then
  (\<open>p'\<close>), returns that same classifier and leaves the state as it is, \<open>stdout\<close>
  included: no second pipeline is built, however many calls follow.  Counted from the
  start of the process, where the global is \<open>None\<close>, the message that ends a load is
  printed at most once.
\<close>

theorem inicializar_modelo_uma_vez:
  "classificador (snd (inicializar_modelo p s)) = Some (fst (inicializar_modelo p s)) \<and>
   inicializar_modelo p' (snd (inicializar_modelo p s)) =
     (fst (inicializar_modelo p s), snd (inicializar_modelo p s)) \<and>
   ((\<lambda>t. snd (inicializar_modelo p' t)) ^^ n) (snd (inicializar_modelo p s)) =
     snd (inicializar_modelo p s) \<and>
   length (filter (\<lambda>l. l = ''Modelo carregado com sucesso!'')
     (stdout (((\<lambda>t. snd (inicializar_modelo p' t)) ^^ n) estado_inicial))) \<le> 1"
proof -
  let ?s1 = "snd (inicializar_modelo p s)"
  have a: "classificador ?s1 = Some (fst (inicializar_modelo p s))"
    by (rule classificador_inicializar_modelo)
  then have b: "inicializar_modelo p' ?s1 = (fst (inicializar_modelo p s), ?s1)"
    by (rule inicializar_modelo_carregado)
  have c: "((\<lambda>t. snd (inicializar_modelo p' t)) ^^ k) ?s1 = ?s1" for k
    by (induction k) (simp_all add: b)
  have d: "length (filter (\<lambda>l. l = ''Modelo carregado com sucesso!'')
     (stdout (((\<lambda>t. snd (inicializar_modelo p' t)) ^^ n) estado_inicial))) \<le> 1"
  proof (cases n)
    case 0
    then show ?thesis by (simp add: estado_inicial_def)
  next
    case (Suc k)
    let ?t1 = "snd (inicializar_modelo p' (estado_inicial :: 'a estado))"
    have "inicializar_modelo p' ?t1 = (fst (inicializar_modelo p' estado_inicial), ?t1)"
      by (rule inicializar_modelo_carregado) (rule classificador_inicializar_modelo)
    then have "((\<lambda>t. snd (inicializar_modelo p' t)) ^^ j) ?t1 = ?t1" for j
      by (induction j) simp_all
    moreover have "((\<lambda>t. snd (inicializar_modelo p' t)) ^^ Suc k) estado_inicial =
        ((\<lambda>t. snd (inicializar_modelo p' t)) ^^ k) ?t1"
      by (simp only: funpow_Suc_right o_apply)
    ultimately have "((\<lambda>t. snd (inicializar_modelo p' t)) ^^ n) estado_inicial = ?t1"
      using Suc by simp
    then show ?thesis
      by (simp add: inicializar_modelo_def estado_inicial_def)
  qed
  from a b c d show ?thesis by blast
qed

section \<open>Tool 1\<close>

text \<open>What tool 1 returns once element 0 of the classifier's answer is known.\<close>

lemma analisar_sentimento_eq:
  assumes "fst (inicializar_modelo pipeline s) texto = resultados # outros"
  shows "fst (analisar_sentimento fl pipeline texto top_k s) =
     (case fatiar (sorted_desc resultados) top_k of
        [] \<Rightarrow> Inl IndexError
      | dominante # _ \<Rightarrow>
          Inr (JDict
            [(''texto_analisado'', JStr texto),
             (''total_emocoes'', JInt (int (length resultados))),
             (''top_emocoes'', JList (map (item_top fl) (fatiar (sorted_desc resultados) top_k))),
             (''emocao_dominante'', JStr (traduzir (label dominante))),
             (''emocao_dominante_original'', JStr (label dominante)),
             (''confianca_dominante'', JStr (porcentagem fl (score dominante)))]))"
proof (cases "inicializar_modelo pipeline s")
  case (Pair m s')
  with assms have "m texto = resultados # outros" by simp
  with Pair show ?thesis
    by (cases "fatiar (sorted_desc resultados) top_k")
       (simp_all add: analisar_sentimento_def primeiro_def)
qed

lemma analisar_sentimento_zero:
  "fst (analisar_sentimento fl pipeline texto 0 s) = Inl IndexError"
proof (cases "inicializar_modelo pipeline s")
  case (Pair m s')
  then show ?thesis
    by (cases "m texto") (simp_all add: analisar_sentimento_def primeiro_def fatiar_def)
qed

text \<open>
  C1, as amended.  When the classifier answers the text with 28 scored labels and
  \<open>1 \<le> top_k\<close>, the tool returns a response whose \<open>top_emocoes\<close> is the list of the
  formatted entries of \<open>sorted(resultados)[:top_k]\<close>; it has \<open>min(top_k, 28)\<close> entries
  and the scores of the labels it formats are non-increasing.
\<close>

theorem analisar_sentimento_top_k:
  assumes "fst (inicializar_modelo pipeline s) texto = resultados # outros"
      and "length resultados = 28"
      and "1 \<le> top_k"
  shows "\<exists>resposta top.
           fst (analisar_sentimento fl pipeline texto top_k s) = Inr resposta \<and>
           campo ''top_emocoes'' resposta = Some (JList (map (item_top fl) top)) \<and>
           top = fatiar (sorted_desc resultados) top_k \<and>
           int (length (map (item_top fl) top)) = min top_k 28 \<and>
           sorted_wrt (\<lambda>a b. score b \<le> score a) top"
proof -
  let ?top = "fatiar (sorted_desc resultados) top_k"
  have len: "int (length ?top) = min top_k 28"
    using assms(2,3) by (simp add: length_fatiar length_sorted_desc)
  with assms(3) have "?top \<noteq> []" by auto
  then obtain d ds where top: "?top = d # ds" by (cases ?top) auto
  have "fst (analisar_sentimento fl pipeline texto top_k s) = Inr (JDict
            [(''texto_analisado'', JStr texto),
             (''total_emocoes'', JInt (int (length resultados))),
             (''top_emocoes'', JList (map (item_top fl) ?top)),
             (''emocao_dominante'', JStr (traduzir (label d))),
             (''emocao_dominante_original'', JStr (label d)),
             (''confianca_dominante'', JStr (porcentagem fl (score d)))])"
    using analisar_sentimento_eq [OF assms(1), of fl top_k] top by simp
  moreover have "sorted_wrt (\<lambda>a b. score b \<le> score a) ?top"
    by (rule fatiar_decrescente)
  ultimately show ?thesis
    using len by (simp add: campo_def)
qed

text \<open>The theorem of C1 at the example classifier and \<open>top_k = 5\<close>.\<close>

theorem analisar_sentimento_top_k_witness:
  "fst (inicializar_modelo modelo_exemplo estado_inicial) ''ok'' = resultados_exemplo # [] \<and>
   length resultados_exemplo = 28 \<and> (1::int) \<le> 5 \<and>
   (\<exists>resposta top.
      fst (analisar_sentimento fl_exemplo modelo_exemplo ''ok'' 5 estado_inicial) = Inr resposta \<and>
      campo ''top_emocoes'' resposta = Some (JList (map (item_top fl_exemplo) top)) \<and>
      top = fatiar (sorted_desc resultados_exemplo) 5 \<and>
      int (length (map (item_top fl_exemplo) top)) = min 5 28 \<and>
      sorted_wrt (\<lambda>a b. score b \<le> score a) top)"
  using analisar_sentimento_top_k [OF modelo_exemplo_contrato length_resultados_exemplo, of 5 fl_exemplo]
    modelo_exemplo_contrato length_resultados_exemplo
  by simp

text \<open>
  C1 as stated fails for \<open>top_k = -1\<close>: the slice drops the last label, so the tool
  returns 27 entries, and \<open>min(-1, 28)\<close> is \<open>-1\<close>.
\<close>

theorem analisar_sentimento_top_k_negativo:
  "map_option int (tamanho_campo ''top_emocoes''
      (fst (analisar_sentimento fl_exemplo modelo_exemplo ''ok'' (- 1) estado_inicial))) = Some 27
   \<and> min (- 1) 28 \<noteq> (27::int)"
proof -
  have "int (length (fatiar (sorted_desc resultados_exemplo) (- 1))) = 27"
    by (simp add: length_fatiar length_sorted_desc length_resultados_exemplo)
  then have len: "length (fatiar (sorted_desc resultados_exemplo) (- 1)) = 27" by linarith
  then obtain d ds where top: "fatiar (sorted_desc resultados_exemplo) (- 1) = d # ds"
    by (cases "fatiar (sorted_desc resultados_exemplo) (- 1)") auto
  show ?thesis
    using analisar_sentimento_eq [OF modelo_exemplo_contrato, of fl_exemplo "''ok''" "- 1"] top len
    by (simp add: tamanho_campo_def campo_def)
qed

text \<open>
  C10, as amended.  With \<open>top_k = 0\<close> the tool raises IndexError, for every classifier,
  text and state: the slice is empty and element 0 of it is read.  When the classifier
  answers with 28 scored labels, the tool returns exactly when the slice is not empty,
  that is for \<open>top_k \<ge> 1\<close> and for \<open>-28 < top_k < 0\<close>; it raises IndexError exactly for
  \<open>top_k = 0\<close> and for \<open>top_k \<le> -28\<close>.  So \<open>top_k \<ge> 1\<close> is enough for success, and
  it is not necessary.
\<close>

theorem analisar_sentimento_sucesso:
  assumes "fst (inicializar_modelo pipeline s) texto = resultados # outros"
      and "length resultados = 28"
  shows "fst (analisar_sentimento fl pipeline' texto' 0 s') = Inl IndexError \<and>
         ((\<exists>resposta. fst (analisar_sentimento fl pipeline texto top_k s) = Inr resposta)
            \<longleftrightarrow> 1 \<le> top_k \<or> (- 28 < top_k \<and> top_k < 0)) \<and>
         (fst (analisar_sentimento fl pipeline texto top_k s) = Inl IndexError
            \<longleftrightarrow> top_k = 0 \<or> top_k \<le> - 28)"
proof -
  let ?top = "fatiar (sorted_desc resultados) top_k"
  have "length (sorted_desc resultados) = 28"
    using assms(2) by (simp add: length_sorted_desc)
  then have vazio: "?top = [] \<longleftrightarrow> top_k = 0 \<or> top_k \<le> - 28"
    by (auto simp add: fatiar_Nil_iff)
  have "fst (analisar_sentimento fl pipeline texto top_k s) = Inl IndexError \<longleftrightarrow> ?top = []"
    using analisar_sentimento_eq [OF assms(1), of fl top_k]
    by (cases ?top) simp_all
  moreover have "(\<exists>resposta. fst (analisar_sentimento fl pipeline texto top_k s) = Inr resposta)
      \<longleftrightarrow> ?top \<noteq> []"
    using analisar_sentimento_eq [OF assms(1), of fl top_k]
    by (cases ?top) simp_all
  ultimately show ?thesis
    using vazio analisar_sentimento_zero [of fl pipeline' texto' s'] by auto
qed

text \<open>The theorem of C10 at the example classifier, for \<open>top_k\<close> 0, -5 and -28.\<close>

theorem analisar_sentimento_sucesso_witness:
  "fst (inicializar_modelo modelo_exemplo estado_inicial) ''ok'' = resultados_exemplo # [] \<and>
   length resultados_exemplo = 28 \<and>
   fst (analisar_sentimento fl_exemplo modelo_exemplo ''ok'' 0 estado_inicial) = Inl IndexError \<and>
   (\<exists>resposta. fst (analisar_sentimento fl_exemplo modelo_exemplo ''ok'' (- 5) estado_inicial)
        = Inr resposta) \<and>
   fst (analisar_sentimento fl_exemplo modelo_exemplo ''ok'' (- 28) estado_inicial) = Inl IndexError"
  using analisar_sentimento_sucesso [OF modelo_exemplo_contrato length_resultados_exemplo,
      where fl = fl_exemplo and pipeline' = modelo_exemplo and texto' = "''ok''"
        and s' = estado_inicial and top_k = "- 5"]
    analisar_sentimento_sucesso [OF modelo_exemplo_contrato length_resultados_exemplo,
      where fl = fl_exemplo and pipeline' = modelo_exemplo and texto' = "''ok''"
        and s' = estado_inicial and top_k = "- 28"]
    modelo_exemplo_contrato length_resultados_exemplo
  by simp

text \<open>
  C10 as stated fails for \<open>top_k = -27\<close>: the precondition \<open>top_k \<ge> 1\<close> does not hold,
  and the tool returns the response below, with the dominant label as its only entry.
\<close>

theorem analisar_sentimento_menos_27:
  "fst (analisar_sentimento fl_exemplo modelo_exemplo ''ok'' (- 27) estado_inicial) =
     Inr (JDict
       [(''texto_analisado'', JStr ''ok''),
        (''total_emocoes'', JInt 28),
        (''top_emocoes'',
           JList [JDict [(''emocao'', JStr ''alegria''),
                         (''emocao_original'', JStr ''joy''),
                         (''probabilidade'', JFloat 91),
                         (''porcentagem'', JStr ''91.00%'')]]),
        (''emocao_dominante'', JStr ''alegria''),
        (''emocao_dominante_original'', JStr ''joy''),
        (''confianca_dominante'', JStr ''91.00%'')])"
  by (simp add: analisar_sentimento_def inicializar_modelo_def estado_inicial_def
      modelo_exemplo_def primeiro_def sorted_desc_def resultados_exemplo_def
      TRADUCAO_EMOCOES_def pontos_exemplo_def fatiar_def item_top_def traduzir_def
      probabilidade_def porcentagem_def fl_exemplo_def digito_def)

section \<open>Tool 2\<close>

lemma sorted_desc_Nil_iff: "sorted_desc rs = [] \<longleftrightarrow> rs = []"
  using length_sorted_desc [of rs] by (cases rs) auto

lemma length_filter_sorted_desc:
  "length (filter P (sorted_desc rs)) = length (filter P rs)"
proof -
  have "mset (filter P (sorted_desc rs)) = mset (filter P rs)"
    by (simp add: mset_sorted_desc)
  then show ?thesis by (rule mset_eq_length)
qed

lemma tres_faixas:
  "length (filter (\<lambda>r. 0.5 \<le> score r) rs)
     + length (filter (\<lambda>r. 0.1 \<le> score r \<and> score r < 0.5) rs)
     + length (filter (\<lambda>r. score r < 0.1) rs) = length rs"
  by (induction rs) auto

text \<open>What tool 2 returns once element 0 of the classifier's answer is known.\<close>

lemma analisar_sentimento_detalhado_eq:
  assumes "fst (inicializar_modelo pipeline s) texto = resultados # outros"
  shows "fst (analisar_sentimento_detalhado fl pipeline texto s) =
     (case sorted_desc resultados of
        [] \<Rightarrow> Inl IndexError
      | dominante # _ \<Rightarrow>
          Inr (JDict
            [(''texto_analisado'', JStr texto),
             (''emocao_dominante'', JStr (traduzir (label dominante))),
             (''emocao_dominante_original'', JStr (label dominante)),
             (''confianca_dominante'', JStr (porcentagem fl (score dominante))),
             (''resumo'', JDict
                [(''emocoes_alta_confianca'',
                    JInt (int (length (filter (\<lambda>r. 0.5 \<le> score r) (sorted_desc resultados))))),
                 (''emocoes_media_confianca'',
                    JInt (int (length (filter (\<lambda>r. 0.1 \<le> score r \<and> score r < 0.5)
                      (sorted_desc resultados))))),
                 (''emocoes_baixa_confianca'',
                    JInt (int (length (filter (\<lambda>r. score r < 0.1) (sorted_desc resultados)))))]),
             (''todas_emocoes'', JList (map (item_detalhado fl) (sorted_desc resultados)))]))"
proof (cases "inicializar_modelo pipeline s")
  case (Pair m s')
  with assms have "m texto = resultados # outros" by simp
  with Pair show ?thesis
    by (cases "sorted_desc resultados")
       (simp_all add: analisar_sentimento_detalhado_def primeiro_def)
qed

text \<open>
  C2.  When the classifier answers the text with 28 scored labels, the tool returns a
  response whose \<open>todas_emocoes\<close> is the list of the formatted entries of the sorted
  answer: 28 entries, the same scored labels as the classifier returned (as a multiset),
  scores non-increasing.  Entry by entry, the \<open>nivel\<close> tag is "alta" exactly when
  \<open>score \<ge> 0.5\<close>, the word for "medium" exactly when \<open>0.1 \<le> score < 0.5\<close>, and
  "baixa" exactly when \<open>score < 0.1\<close>.
\<close>

theorem analisar_sentimento_detalhado_todas:
  assumes "fst (inicializar_modelo pipeline s) texto = resultados # outros"
      and "length resultados = 28"
  shows "\<exists>resposta todas.
           fst (analisar_sentimento_detalhado fl pipeline texto s) = Inr resposta \<and>
           campo ''todas_emocoes'' resposta = Some (JList (map (item_detalhado fl) todas)) \<and>
           todas = sorted_desc resultados \<and>
           length (map (item_detalhado fl) todas) = 28 \<and>
           mset todas = mset resultados \<and>
           sorted_wrt (\<lambda>a b. score b \<le> score a) todas \<and>
           list_all2 (\<lambda>j r.
               (campo ''nivel'' j = Some (JStr ''alta'') \<longleftrightarrow> 0.5 \<le> score r) \<and>
               (campo ''nivel'' j = Some (JStr (''m'' @ [e_agudo] @ ''dia''))
                  \<longleftrightarrow> 0.1 \<le> score r \<and> score r < 0.5) \<and>
               (campo ''nivel'' j = Some (JStr ''baixa'') \<longleftrightarrow> score r < 0.1))
             (map (item_detalhado fl) todas) todas"
proof -
  let ?todas = "sorted_desc resultados"
  have "?todas \<noteq> []"
    using assms(2) by (auto simp add: sorted_desc_Nil_iff)
  then obtain d ds where todas: "?todas = d # ds" by (cases ?todas) auto
  have "fst (analisar_sentimento_detalhado fl pipeline texto s) = Inr (JDict
            [(''texto_analisado'', JStr texto),
             (''emocao_dominante'', JStr (traduzir (label d))),
             (''emocao_dominante_original'', JStr (label d)),
             (''confianca_dominante'', JStr (porcentagem fl (score d))),
             (''resumo'', JDict
                [(''emocoes_alta_confianca'',
                    JInt (int (length (filter (\<lambda>r. 0.5 \<le> score r) ?todas)))),
                 (''emocoes_media_confianca'',
                    JInt (int (length (filter (\<lambda>r. 0.1 \<le> score r \<and> score r < 0.5) ?todas)))),
                 (''emocoes_baixa_confianca'',
                    JInt (int (length (filter (\<lambda>r. score r < 0.1) ?todas))))]),
             (''todas_emocoes'', JList (map (item_detalhado fl) ?todas))])"
    using analisar_sentimento_detalhado_eq [OF assms(1), of fl] todas by simp
  then have "\<exists>resposta. fst (analisar_sentimento_detalhado fl pipeline texto s) = Inr resposta \<and>
      campo ''todas_emocoes'' resposta = Some (JList (map (item_detalhado fl) ?todas))"
    by (simp add: campo_def)
  moreover have "list_all2 (\<lambda>j r.
               (campo ''nivel'' j = Some (JStr ''alta'') \<longleftrightarrow> 0.5 \<le> score r) \<and>
               (campo ''nivel'' j = Some (JStr (''m'' @ [e_agudo] @ ''dia''))
                  \<longleftrightarrow> 0.1 \<le> score r \<and> score r < 0.5) \<and>
               (campo ''nivel'' j = Some (JStr ''baixa'') \<longleftrightarrow> score r < 0.1))
             (map (item_detalhado fl) ?todas) ?todas"
    by (auto simp add: list_all2_map1 list_all2_same item_detalhado_def campo_def nivel_def)
  ultimately show ?thesis
    using assms(2)
    by (simp add: length_sorted_desc mset_sorted_desc sorted_desc_decrescente)
qed

text \<open>The theorem of C2 at the example classifier.\<close>

theorem analisar_sentimento_detalhado_todas_witness:
  "fst (inicializar_modelo modelo_exemplo estado_inicial) ''ok'' = resultados_exemplo # [] \<and>
   length resultados_exemplo = 28 \<and>
   (\<exists>resposta todas.
      fst (analisar_sentimento_detalhado fl_exemplo modelo_exemplo ''ok'' estado_inicial) = Inr resposta \<and>
      campo ''todas_emocoes'' resposta = Some (JList (map (item_detalhado fl_exemplo) todas)) \<and>
      todas = sorted_desc resultados_exemplo \<and>
      length (map (item_detalhado fl_exemplo) todas) = 28 \<and>
      mset todas = mset resultados_exemplo \<and>
      sorted_wrt (\<lambda>a b. score b \<le> score a) todas \<and>
      list_all2 (\<lambda>j r.
          (campo ''nivel'' j = Some (JStr ''alta'') \<longleftrightarrow> 0.5 \<le> score r) \<and>
          (campo ''nivel'' j = Some (JStr (''m'' @ [e_agudo] @ ''dia''))
             \<longleftrightarrow> 0.1 \<le> score r \<and> score r < 0.5) \<and>
          (campo ''nivel'' j = Some (JStr ''baixa'') \<longleftrightarrow> score r < 0.1))
        (map (item_detalhado fl_exemplo) todas) todas)"
  using analisar_sentimento_detalhado_todas
      [OF modelo_exemplo_contrato length_resultados_exemplo, where fl = fl_exemplo]
    modelo_exemplo_contrato length_resultados_exemplo
  by simp

text \<open>
  C3.  When the classifier answers the text with 28 scored labels, the three counts of
  \<open>resumo\<close> are the numbers of returned labels with \<open>score \<ge> 0.5\<close>, with
  \<open>0.1 \<le> score < 0.5\<close> and with \<open>score < 0.1\<close>, and they add up to 28.
\<close>

theorem analisar_sentimento_detalhado_resumo:
  assumes "fst (inicializar_modelo pipeline s) texto = resultados # outros"
      and "length resultados = 28"
  shows "\<exists>resposta alta media baixa.
           fst (analisar_sentimento_detalhado fl pipeline texto s) = Inr resposta \<and>
           campo ''resumo'' resposta =
             Some (JDict [(''emocoes_alta_confianca'', JInt (int alta)),
                          (''emocoes_media_confianca'', JInt (int media)),
                          (''emocoes_baixa_confianca'', JInt (int baixa))]) \<and>
           alta = length (filter (\<lambda>r. 0.5 \<le> score r) resultados) \<and>
           media = length (filter (\<lambda>r. 0.1 \<le> score r \<and> score r < 0.5) resultados) \<and>
           baixa = length (filter (\<lambda>r. score r < 0.1) resultados) \<and>
           alta + media + baixa = 28"
proof -
  let ?todas = "sorted_desc resultados"
  have "?todas \<noteq> []"
    using assms(2) by (auto simp add: sorted_desc_Nil_iff)
  then obtain d ds where todas: "?todas = d # ds" by (cases ?todas) auto
  have "\<exists>resposta. fst (analisar_sentimento_detalhado fl pipeline texto s) = Inr resposta \<and>
      campo ''resumo'' resposta =
        Some (JDict
          [(''emocoes_alta_confianca'',
              JInt (int (length (filter (\<lambda>r. 0.5 \<le> score r) ?todas)))),
           (''emocoes_media_confianca'',
              JInt (int (length (filter (\<lambda>r. 0.1 \<le> score r \<and> score r < 0.5) ?todas)))),
           (''emocoes_baixa_confianca'',
              JInt (int (length (filter (\<lambda>r. score r < 0.1) ?todas))))])"
    using analisar_sentimento_detalhado_eq [OF assms(1), of fl] todas
    by (simp add: campo_def)
  then show ?thesis
    using tres_faixas [of resultados] assms(2)
    by (simp add: length_filter_sorted_desc)
qed

text \<open>The theorem of C3 at the example classifier.\<close>

theorem analisar_sentimento_detalhado_resumo_witness:
  "fst (inicializar_modelo modelo_exemplo estado_inicial) ''ok'' = resultados_exemplo # [] \<and>
   length resultados_exemplo = 28 \<and>
   (\<exists>resposta alta media baixa.
      fst (analisar_sentimento_detalhado fl_exemplo modelo_exemplo ''ok'' estado_inicial) = Inr resposta \<and>
      campo ''resumo'' resposta =
        Some (JDict [(''emocoes_alta_confianca'', JInt (int alta)),
                     (''emocoes_media_confianca'', JInt (int media)),
                     (''emocoes_baixa_confianca'', JInt (int baixa))]) \<and>
      alta = length (filter (\<lambda>r. 0.5 \<le> score r) resultados_exemplo) \<and>
      media = length (filter (\<lambda>r. 0.1 \<le> score r \<and> score r < 0.5) resultados_exemplo) \<and>
      baixa = length (filter (\<lambda>r. score r < 0.1) resultados_exemplo) \<and>
      alta + media + baixa = 28)"
  using analisar_sentimento_detalhado_resumo
      [OF modelo_exemplo_contrato length_resultados_exemplo, where fl = fl_exemplo]
    modelo_exemplo_contrato length_resultados_exemplo
  by simp

section \<open>Tool 3\<close>

text \<open>What one pass of the loop appends once element 0 of the answer is known.\<close>

lemma analise_de_eq:
  assumes "m texto = resultados # outros"
  shows "analise_de fl m idx texto =
     (case sorted_desc resultados of
        [] \<Rightarrow> Inl IndexError
      | dominante # _ \<Rightarrow>
          Inr (JDict
            [(''texto_numero'', JInt idx),
             (''texto'', JStr texto),
             (''emocao_dominante'', JStr (traduzir (label dominante))),
             (''emocao_dominante_original'', JStr (label dominante)),
             (''confianca'', JStr (porcentagem fl (score dominante))),
             (''top_3_emocoes'',
                JList (map (item_top3 fl) (fatiar (sorted_desc resultados) 3)))]))"
  using assms
  by (cases "sorted_desc resultados") (simp_all add: analise_de_def primeiro_def)

lemma analise_de_Inr:
  assumes "analise_de fl m idx texto = Inr a"
  shows "\<exists>resultados outros dominante resto.
           m texto = resultados # outros \<and> sorted_desc resultados = dominante # resto \<and>
           a = JDict
            [(''texto_numero'', JInt idx),
             (''texto'', JStr texto),
             (''emocao_dominante'', JStr (traduzir (label dominante))),
             (''emocao_dominante_original'', JStr (label dominante)),
             (''confianca'', JStr (porcentagem fl (score dominante))),
             (''top_3_emocoes'',
                JList (map (item_top3 fl) (fatiar (sorted_desc resultados) 3)))]"
proof (cases "m texto")
  case Nil
  with assms show ?thesis by (simp add: analise_de_def primeiro_def)
next
  case (Cons resultados outros)
  show ?thesis
  proof (cases "sorted_desc resultados")
    case Nil
    with assms Cons show ?thesis by (simp add: analise_de_eq)
  next
    case (Cons dominante resto)
    with assms \<open>m texto = resultados # outros\<close> show ?thesis
      by (auto simp add: analise_de_eq)
  qed
qed

lemma analise_de_contrato:
  assumes "contrato m texto"
  shows "\<exists>a. analise_de fl m idx texto = Inr a"
proof -
  from assms obtain resultados outros
    where m: "m texto = resultados # outros" and len: "length resultados = 28"
    by (auto simp add: contrato_def split: list.splits)
  from len have "sorted_desc resultados \<noteq> []"
    by (auto simp add: sorted_desc_Nil_iff)
  then obtain d ds where "sorted_desc resultados = d # ds"
    by (cases "sorted_desc resultados") auto
  with m show ?thesis by (simp add: analise_de_eq)
qed

lemma laco_analises_Inr:
  "laco_analises fl m idx textos analises = Inr saida \<Longrightarrow>
     \<exists>novas. saida = analises @ novas \<and> length novas = length textos \<and>
       (\<forall>i<length textos. analise_de fl m (idx + int i) (textos ! i) = Inr (novas ! i))"
proof (induction textos arbitrary: idx analises)
  case Nil
  then show ?case by simp
next
  case (Cons texto resto)
  from Cons.prems obtain a
    where a: "analise_de fl m idx texto = Inr a"
      and laco: "laco_analises fl m (idx + 1) resto (analises @ [a]) = Inr saida"
    by (auto split: sum.splits)
  from Cons.IH [OF laco] obtain novas
    where saida: "saida = (analises @ [a]) @ novas"
      and len: "length novas = length resto"
      and cada: "\<forall>i<length resto. analise_de fl m (idx + 1 + int i) (resto ! i) = Inr (novas ! i)"
    by blast
  have "\<forall>i<length (texto # resto).
          analise_de fl m (idx + int i) ((texto # resto) ! i) = Inr ((a # novas) ! i)"
  proof (intro allI impI)
    fix i assume i: "i < length (texto # resto)"
    show "analise_de fl m (idx + int i) ((texto # resto) ! i) = Inr ((a # novas) ! i)"
    proof (cases i)
      case 0
      with a show ?thesis by simp
    next
      case (Suc j)
      with i have "j < length resto" by simp
      with cada have "analise_de fl m (idx + 1 + int j) (resto ! j) = Inr (novas ! j)" by blast
      with Suc show ?thesis by (simp add: add.assoc)
    qed
  qed
  with saida len show ?case
    by (intro exI [of _ "a # novas"]) simp
qed

lemma laco_analises_contrato:
  "list_all (contrato m) textos \<Longrightarrow> \<exists>saida. laco_analises fl m idx textos analises = Inr saida"
proof (induction textos arbitrary: idx analises)
  case Nil
  then show ?case by simp
next
  case (Cons texto resto)
  then have "contrato m texto" and resto: "list_all (contrato m) resto" by simp_all
  then obtain a where "analise_de fl m idx texto = Inr a"
    using analise_de_contrato by blast
  with Cons.IH [OF resto, of "idx + 1" "analises @ [a]"] show ?case by simp
qed

text \<open>What tool 3 returns, when it returns.\<close>

lemma comparar_sentimentos_Inr:
  assumes "fst (comparar_sentimentos fl pipeline textos s) = Inr resposta"
  shows "\<exists>analises.
           resposta = JDict [(''total_textos_analisados'', JInt (int (length textos))),
                             (''analises'', JList analises)] \<and>
           length analises = length textos \<and>
           (\<forall>i<length textos.
              analise_de fl (fst (inicializar_modelo pipeline s)) (1 + int i) (textos ! i)
                = Inr (analises ! i))"
proof (cases "inicializar_modelo pipeline s")
  case (Pair m s')
  with assms obtain analises
    where laco: "laco_analises fl m 1 textos [] = Inr analises"
      and resposta: "resposta = JDict [(''total_textos_analisados'', JInt (int (length textos))),
                             (''analises'', JList analises)]"
    by (auto simp add: comparar_sentimentos_def split: sum.splits)
  from laco_analises_Inr [OF laco] resposta Pair show ?thesis by simp
qed

lemma comparar_sentimentos_contrato:
  assumes "list_all (contrato (fst (inicializar_modelo pipeline s))) textos"
  shows "\<exists>resposta. fst (comparar_sentimentos fl pipeline textos s) = Inr resposta"
proof (cases "inicializar_modelo pipeline s")
  case (Pair m s')
  with assms have "list_all (contrato m) textos" by simp
  from laco_analises_contrato [OF this, of fl 1 "[]"] Pair show ?thesis
    by (auto simp add: comparar_sentimentos_def)
qed

text \<open>
  C4.  When the classifier answers every text of the list according to its contract,
  the tool returns a response whose \<open>analises\<close> has as many entries as there are texts
  and whose \<open>total_textos_analisados\<close> is that number; entry \<open>i\<close> (from 0) carries the
  \<open>i\<close>-th text in \<open>texto\<close> and \<open>i + 1\<close> in \<open>texto_numero\<close>.
\<close>

theorem comparar_sentimentos_ordem:
  assumes "list_all (contrato (fst (inicializar_modelo pipeline s))) textos"
  shows "\<exists>resposta analises.
           fst (comparar_sentimentos fl pipeline textos s) = Inr resposta \<and>
           campo ''analises'' resposta = Some (JList analises) \<and>
           campo ''total_textos_analisados'' resposta = Some (JInt (int (length textos))) \<and>
           length analises = length textos \<and>
           (\<forall>i<length textos.
              campo ''texto'' (analises ! i) = Some (JStr (textos ! i)) \<and>
              campo ''texto_numero'' (analises ! i) = Some (JInt (int i + 1)))"
proof -
  from comparar_sentimentos_contrato [OF assms] obtain resposta
    where r: "fst (comparar_sentimentos fl pipeline textos s) = Inr resposta" by blast
  from comparar_sentimentos_Inr [OF r] obtain analises
    where resposta: "resposta = JDict [(''total_textos_analisados'', JInt (int (length textos))),
                             (''analises'', JList analises)]"
      and len: "length analises = length textos"
      and cada: "\<forall>i<length textos.
              analise_de fl (fst (inicializar_modelo pipeline s)) (1 + int i) (textos ! i)
                = Inr (analises ! i)"
    by blast
  have "campo ''texto'' (analises ! i) = Some (JStr (textos ! i)) \<and>
        campo ''texto_numero'' (analises ! i) = Some (JInt (int i + 1))"
    if "i < length textos" for i
  proof -
    from cada that
    have "analise_de fl (fst (inicializar_modelo pipeline s)) (1 + int i) (textos ! i)
            = Inr (analises ! i)" by blast
    from analise_de_Inr [OF this] show ?thesis
      by (auto simp add: campo_def)
  qed
  with r resposta len show ?thesis
    by (simp add: campo_def)
qed

text \<open>The example classifier keeps the contract on a list of two texts.\<close>

lemma contrato_exemplo:
  "list_all (contrato (fst (inicializar_modelo modelo_exemplo estado_inicial))) [''bom'', ''mau'']"
  by (simp add: contrato_def modelo_exemplo_contrato length_resultados_exemplo)

text \<open>The theorem of C4 at the example classifier and two texts.\<close>

theorem comparar_sentimentos_ordem_witness:
  "list_all (contrato (fst (inicializar_modelo modelo_exemplo estado_inicial))) [''bom'', ''mau''] \<and>
   (\<exists>resposta analises.
      fst (comparar_sentimentos fl_exemplo modelo_exemplo [''bom'', ''mau''] estado_inicial)
        = Inr resposta \<and>
      campo ''analises'' resposta = Some (JList analises) \<and>
      campo ''total_textos_analisados'' resposta = Some (JInt 2) \<and>
      length analises = 2 \<and>
      campo ''texto'' (analises ! 0) = Some (JStr ''bom'') \<and>
      campo ''texto_numero'' (analises ! 0) = Some (JInt 1) \<and>
      campo ''texto'' (analises ! 1) = Some (JStr ''mau'') \<and>
      campo ''texto_numero'' (analises ! 1) = Some (JInt 2))"
proof -
  from comparar_sentimentos_ordem [OF contrato_exemplo, of fl_exemplo]
  obtain resposta analises where
    "fst (comparar_sentimentos fl_exemplo modelo_exemplo [''bom'', ''mau''] estado_inicial)
        = Inr resposta"
    "campo ''analises'' resposta = Some (JList analises)"
    "campo ''total_textos_analisados'' resposta = Some (JInt 2)"
    "length analises = 2"
    and cada: "\<forall>i<2. campo ''texto'' (analises ! i) = Some (JStr ([''bom'', ''mau''] ! i)) \<and>
              campo ''texto_numero'' (analises ! i) = Some (JInt (int i + 1))"
    by auto
  moreover from cada have "campo ''texto'' (analises ! 0) = Some (JStr ''bom'') \<and>
      campo ''texto_numero'' (analises ! 0) = Some (JInt 1)" by auto
  moreover from cada have "campo ''texto'' (analises ! 1) = Some (JStr ''mau'') \<and>
      campo ''texto_numero'' (analises ! 1) = Some (JInt 2)" by auto
  ultimately show ?thesis using contrato_exemplo by blast
qed

text \<open>
  C5.  When the classifier answers every text of the list according to its contract,
  the \<open>top_3_emocoes\<close> of each entry is the list of the formatted entries of the first
  three labels of that text's sorted answer: exactly 3 entries, scores non-increasing.
\<close>

theorem comparar_sentimentos_top_3:
  assumes "list_all (contrato (fst (inicializar_modelo pipeline s))) textos"
  shows "\<exists>resposta analises.
           fst (comparar_sentimentos fl pipeline textos s) = Inr resposta \<and>
           campo ''analises'' resposta = Some (JList analises) \<and>
           length analises = length textos \<and>
           (\<forall>i<length textos. \<exists>resultados outros top_3.
              fst (inicializar_modelo pipeline s) (textos ! i) = resultados # outros \<and>
              top_3 = fatiar (sorted_desc resultados) 3 \<and>
              campo ''top_3_emocoes'' (analises ! i) = Some (JList (map (item_top3 fl) top_3)) \<and>
              length (map (item_top3 fl) top_3) = 3 \<and>
              sorted_wrt (\<lambda>a b. score b \<le> score a) top_3)"
proof -
  let ?m = "fst (inicializar_modelo pipeline s)"
  from comparar_sentimentos_contrato [OF assms] obtain resposta
    where r: "fst (comparar_sentimentos fl pipeline textos s) = Inr resposta" by blast
  from comparar_sentimentos_Inr [OF r] obtain analises
    where resposta: "resposta = JDict [(''total_textos_analisados'', JInt (int (length textos))),
                             (''analises'', JList analises)]"
      and len: "length analises = length textos"
      and cada: "\<forall>i<length textos. analise_de fl ?m (1 + int i) (textos ! i) = Inr (analises ! i)"
    by blast
  have "\<exists>resultados outros top_3.
          ?m (textos ! i) = resultados # outros \<and>
          top_3 = fatiar (sorted_desc resultados) 3 \<and>
          campo ''top_3_emocoes'' (analises ! i) = Some (JList (map (item_top3 fl) top_3)) \<and>
          length (map (item_top3 fl) top_3) = 3 \<and>
          sorted_wrt (\<lambda>a b. score b \<le> score a) top_3"
    if i: "i < length textos" for i
  proof -
    from cada i have a: "analise_de fl ?m (1 + int i) (textos ! i) = Inr (analises ! i)" by blast
    from analise_de_Inr [OF a] obtain resultados outros
      where m: "?m (textos ! i) = resultados # outros"
        and campo: "campo ''top_3_emocoes'' (analises ! i) =
              Some (JList (map (item_top3 fl) (fatiar (sorted_desc resultados) 3)))"
      by (auto simp add: campo_def)
    from assms i have "contrato ?m (textos ! i)"
      by (simp add: list_all_length)
    with m have "length resultados = 28" by (simp add: contrato_def)
    then have "int (length (fatiar (sorted_desc resultados) 3)) = 3"
      by (simp add: length_fatiar length_sorted_desc)
    then have "length (fatiar (sorted_desc resultados) 3) = 3" by linarith
    with m campo fatiar_decrescente [of resultados 3] show ?thesis by simp
  qed
  with r resposta len show ?thesis
    by (simp add: campo_def)
qed

text \<open>The theorem of C5 at the example classifier, read at the second of two texts.\<close>

theorem comparar_sentimentos_top_3_witness:
  "list_all (contrato (fst (inicializar_modelo modelo_exemplo estado_inicial))) [''bom'', ''mau''] \<and>
   (\<exists>resposta analises.
      fst (comparar_sentimentos fl_exemplo modelo_exemplo [''bom'', ''mau''] estado_inicial)
        = Inr resposta \<and>
      campo ''analises'' resposta = Some (JList analises) \<and>
      length analises = 2 \<and>
      (\<exists>top_3.
         top_3 = fatiar (sorted_desc resultados_exemplo) 3 \<and>
         campo ''top_3_emocoes'' (analises ! 1) = Some (JList (map (item_top3 fl_exemplo) top_3)) \<and>
         length (map (item_top3 fl_exemplo) top_3) = 3 \<and>
         sorted_wrt (\<lambda>a b. score b \<le> score a) top_3))"
proof -
  from comparar_sentimentos_top_3 [OF contrato_exemplo, of fl_exemplo]
  obtain resposta analises where
    r: "fst (comparar_sentimentos fl_exemplo modelo_exemplo [''bom'', ''mau''] estado_inicial)
        = Inr resposta"
    "campo ''analises'' resposta = Some (JList analises)"
    "length analises = 2"
    and cada: "\<forall>i<2. \<exists>resultados outros top_3.
              fst (inicializar_modelo modelo_exemplo estado_inicial) ([''bom'', ''mau''] ! i)
                = resultados # outros \<and>
              top_3 = fatiar (sorted_desc resultados) 3 \<and>
              campo ''top_3_emocoes'' (analises ! i) = Some (JList (map (item_top3 fl_exemplo) top_3)) \<and>
              length (map (item_top3 fl_exemplo) top_3) = 3 \<and>
              sorted_wrt (\<lambda>a b. score b \<le> score a) top_3"
    by auto
  have "(1::nat) < 2" by simp
  with cada have "\<exists>resultados outros top_3.
              fst (inicializar_modelo modelo_exemplo estado_inicial) ([''bom'', ''mau''] ! 1)
                = resultados # outros \<and>
              top_3 = fatiar (sorted_desc resultados) 3 \<and>
              campo ''top_3_emocoes'' (analises ! 1) = Some (JList (map (item_top3 fl_exemplo) top_3)) \<and>
              length (map (item_top3 fl_exemplo) top_3) = 3 \<and>
              sorted_wrt (\<lambda>a b. score b \<le> score a) top_3"
    by blast
  then have "\<exists>top_3.
         top_3 = fatiar (sorted_desc resultados_exemplo) 3 \<and>
         campo ''top_3_emocoes'' (analises ! 1) = Some (JList (map (item_top3 fl_exemplo) top_3)) \<and>
         length (map (item_top3 fl_exemplo) top_3) = 3 \<and>
         sorted_wrt (\<lambda>a b. score b \<le> score a) top_3"
    by (simp add: modelo_exemplo_contrato)
  with r \<open>campo ''analises'' resposta = Some (JList analises)\<close> \<open>length analises = 2\<close>
    contrato_exemplo
  show ?thesis by blast
qed

section \<open>The dominant label\<close>

lemma sorted_desc_Cons_max:
  assumes "sorted_desc rs = d # ds"
  shows "d \<in> set rs \<and> list_all (\<lambda>r. score r \<le> score d) rs"
proof -
  have "sorted_wrt (\<lambda>a b. score b \<le> score a) (d # ds)"
    using sorted_desc_decrescente [of rs] assms by simp
  then have "\<forall>r\<in>set (d # ds). score r \<le> score d" by auto
  moreover have "set (d # ds) = set rs"
    using set_sorted_desc [of rs] assms by simp
  ultimately show ?thesis
    by (auto simp add: list_all_iff)
qed

lemma fatiar_Cons:
  assumes "fatiar xs k = d # ds"
  shows "\<exists>es. xs = d # es"
proof (cases xs)
  case Nil
  with assms show ?thesis by (simp add: fatiar_def split: if_splits)
next
  case (Cons e es)
  with assms show ?thesis
    by (auto simp add: fatiar_def take_Cons' split: if_splits)
qed

text \<open>The two outcomes of tool 1, with the response written out.\<close>

lemma analisar_sentimento_casos:
  assumes "fst (inicializar_modelo pipeline s) texto = resultados # outros"
  shows "fst (analisar_sentimento fl pipeline texto top_k s) = Inl IndexError \<or>
     (\<exists>d ds. sorted_desc resultados = d # ds \<and>
        fst (analisar_sentimento fl pipeline texto top_k s) =
          Inr (JDict
            [(''texto_analisado'', JStr texto),
             (''total_emocoes'', JInt (int (length resultados))),
             (''top_emocoes'', JList (map (item_top fl) (fatiar (sorted_desc resultados) top_k))),
             (''emocao_dominante'', JStr (traduzir (label d))),
             (''emocao_dominante_original'', JStr (label d)),
             (''confianca_dominante'', JStr (porcentagem fl (score d)))]))"
proof (cases "fatiar (sorted_desc resultados) top_k")
  case Nil
  with analisar_sentimento_eq [OF assms, of fl top_k] show ?thesis by simp
next
  case (Cons d ds)
  from fatiar_Cons [OF Cons] obtain es where "sorted_desc resultados = d # es" by blast
  with analisar_sentimento_eq [OF assms, of fl top_k] Cons show ?thesis by simp
qed

text \<open>Tool 2 under the contract, with the response written out.\<close>

lemma analisar_sentimento_detalhado_contrato:
  assumes "fst (inicializar_modelo pipeline s) texto = resultados # outros"
      and "length resultados = 28"
  shows "\<exists>d ds. sorted_desc resultados = d # ds \<and>
     fst (analisar_sentimento_detalhado fl pipeline texto s) =
       Inr (JDict
            [(''texto_analisado'', JStr texto),
             (''emocao_dominante'', JStr (traduzir (label d))),
             (''emocao_dominante_original'', JStr (label d)),
             (''confianca_dominante'', JStr (porcentagem fl (score d))),
             (''resumo'', JDict
                [(''emocoes_alta_confianca'',
                    JInt (int (length (filter (\<lambda>r. 0.5 \<le> score r) (sorted_desc resultados))))),
                 (''emocoes_media_confianca'',
                    JInt (int (length (filter (\<lambda>r. 0.1 \<le> score r \<and> score r < 0.5)
                      (sorted_desc resultados))))),
                 (''emocoes_baixa_confianca'',
                    JInt (int (length (filter (\<lambda>r. score r < 0.1) (sorted_desc resultados)))))]),
             (''todas_emocoes'', JList (map (item_detalhado fl) (sorted_desc resultados)))])"
proof -
  have "sorted_desc resultados \<noteq> []"
    using assms(2) by (auto simp add: sorted_desc_Nil_iff)
  then obtain d ds where "sorted_desc resultados = d # ds"
    by (cases "sorted_desc resultados") auto
  with analisar_sentimento_detalhado_eq [OF assms(1), of fl] show ?thesis by simp
qed

text \<open>Tool 3 under the contract, with every entry written out.\<close>

lemma comparar_sentimentos_entradas:
  assumes "list_all (contrato (fst (inicializar_modelo pipeline s))) textos"
  shows "\<exists>resposta analises.
           fst (comparar_sentimentos fl pipeline textos s) = Inr resposta \<and>
           campo ''analises'' resposta = Some (JList analises) \<and>
           length analises = length textos \<and>
           (\<forall>i<length textos. \<exists>resultados outros d ds.
              fst (inicializar_modelo pipeline s) (textos ! i) = resultados # outros \<and>
              sorted_desc resultados = d # ds \<and>
              analises ! i = JDict
                [(''texto_numero'', JInt (1 + int i)),
                 (''texto'', JStr (textos ! i)),
                 (''emocao_dominante'', JStr (traduzir (label d))),
                 (''emocao_dominante_original'', JStr (label d)),
                 (''confianca'', JStr (porcentagem fl (score d))),
                 (''top_3_emocoes'',
                    JList (map (item_top3 fl) (fatiar (sorted_desc resultados) 3)))])"
proof -
  from comparar_sentimentos_contrato [OF assms] obtain resposta
    where r: "fst (comparar_sentimentos fl pipeline textos s) = Inr resposta" by blast
  from comparar_sentimentos_Inr [OF r] obtain analises
    where resposta: "resposta = JDict [(''total_textos_analisados'', JInt (int (length textos))),
                             (''analises'', JList analises)]"
      and len: "length analises = length textos"
      and cada: "\<forall>i<length textos.
          analise_de fl (fst (inicializar_modelo pipeline s)) (1 + int i) (textos ! i)
            = Inr (analises ! i)"
    by blast
  have "\<forall>i<length textos. \<exists>resultados outros d ds.
              fst (inicializar_modelo pipeline s) (textos ! i) = resultados # outros \<and>
              sorted_desc resultados = d # ds \<and>
              analises ! i = JDict
                [(''texto_numero'', JInt (1 + int i)),
                 (''texto'', JStr (textos ! i)),
                 (''emocao_dominante'', JStr (traduzir (label d))),
                 (''emocao_dominante_original'', JStr (label d)),
                 (''confianca'', JStr (porcentagem fl (score d))),
                 (''top_3_emocoes'',
                    JList (map (item_top3 fl) (fatiar (sorted_desc resultados) 3)))]"
    using cada analise_de_Inr by blast
  with r resposta len show ?thesis
    by (simp add: campo_def)
qed

text \<open>
  C7.  Under the classifier's contract, there is a scored label \<open>d\<close> among those returned
  for the text, with no returned label of greater score, such that tool 1 (whenever it
  returns) and tool 2 report the translation of \<open>d\<close>'s label in \<open>emocao_dominante\<close>, the
  label itself in \<open>emocao_dominante_original\<close> and \<open>d\<close>'s formatted score in
  \<open>confianca_dominante\<close>; and every entry of tool 3 reports, in \<open>emocao_dominante\<close>,
  \<open>emocao_dominante_original\<close> and \<open>confianca\<close>, such a label of its own text.
\<close>

theorem emocao_dominante_maxima:
  assumes "fst (inicializar_modelo pipeline s) texto = resultados # outros"
      and "length resultados = 28"
      and "list_all (contrato (fst (inicializar_modelo pipeline s))) textos"
  shows "(\<exists>d. d \<in> set resultados \<and> list_all (\<lambda>r. score r \<le> score d) resultados \<and>
            (fst (analisar_sentimento fl pipeline texto top_k s) = Inl IndexError \<or>
             (\<exists>r1. fst (analisar_sentimento fl pipeline texto top_k s) = Inr r1 \<and>
                campo ''emocao_dominante'' r1 = Some (JStr (traduzir (label d))) \<and>
                campo ''emocao_dominante_original'' r1 = Some (JStr (label d)) \<and>
                campo ''confianca_dominante'' r1 = Some (JStr (porcentagem fl (score d))))) \<and>
            (\<exists>r2. fst (analisar_sentimento_detalhado fl pipeline texto s) = Inr r2 \<and>
                campo ''emocao_dominante'' r2 = Some (JStr (traduzir (label d))) \<and>
                campo ''emocao_dominante_original'' r2 = Some (JStr (label d)) \<and>
                campo ''confianca_dominante'' r2 = Some (JStr (porcentagem fl (score d))))) \<and>
         (\<exists>r3 analises.
            fst (comparar_sentimentos fl pipeline textos s) = Inr r3 \<and>
            campo ''analises'' r3 = Some (JList analises) \<and>
            length analises = length textos \<and>
            (\<forall>i<length textos. \<exists>rs outros d.
               fst (inicializar_modelo pipeline s) (textos ! i) = rs # outros \<and>
               d \<in> set rs \<and> list_all (\<lambda>r. score r \<le> score d) rs \<and>
               campo ''emocao_dominante'' (analises ! i) = Some (JStr (traduzir (label d))) \<and>
               campo ''emocao_dominante_original'' (analises ! i) = Some (JStr (label d)) \<and>
               campo ''confianca'' (analises ! i) = Some (JStr (porcentagem fl (score d)))))"
proof (intro conjI)
  from analisar_sentimento_detalhado_contrato [OF assms(1,2), of fl]
  obtain d ds where d: "sorted_desc resultados = d # ds"
    and r2: "\<exists>r2. fst (analisar_sentimento_detalhado fl pipeline texto s) = Inr r2 \<and>
                campo ''emocao_dominante'' r2 = Some (JStr (traduzir (label d))) \<and>
                campo ''emocao_dominante_original'' r2 = Some (JStr (label d)) \<and>
                campo ''confianca_dominante'' r2 = Some (JStr (porcentagem fl (score d)))"
    by (auto simp add: campo_def)
  have "fst (analisar_sentimento fl pipeline texto top_k s) = Inl IndexError \<or>
             (\<exists>r1. fst (analisar_sentimento fl pipeline texto top_k s) = Inr r1 \<and>
                campo ''emocao_dominante'' r1 = Some (JStr (traduzir (label d))) \<and>
                campo ''emocao_dominante_original'' r1 = Some (JStr (label d)) \<and>
                campo ''confianca_dominante'' r1 = Some (JStr (porcentagem fl (score d))))"
    using analisar_sentimento_casos [OF assms(1), of fl top_k] d
    by (auto simp add: campo_def)
  with r2 sorted_desc_Cons_max [OF d]
  show "\<exists>d. d \<in> set resultados \<and> list_all (\<lambda>r. score r \<le> score d) resultados \<and>
            (fst (analisar_sentimento fl pipeline texto top_k s) = Inl IndexError \<or>
             (\<exists>r1. fst (analisar_sentimento fl pipeline texto top_k s) = Inr r1 \<and>
                campo ''emocao_dominante'' r1 = Some (JStr (traduzir (label d))) \<and>
                campo ''emocao_dominante_original'' r1 = Some (JStr (label d)) \<and>
                campo ''confianca_dominante'' r1 = Some (JStr (porcentagem fl (score d))))) \<and>
            (\<exists>r2. fst (analisar_sentimento_detalhado fl pipeline texto s) = Inr r2 \<and>
                campo ''emocao_dominante'' r2 = Some (JStr (traduzir (label d))) \<and>
                campo ''emocao_dominante_original'' r2 = Some (JStr (label d)) \<and>
                campo ''confianca_dominante'' r2 = Some (JStr (porcentagem fl (score d))))"
    by blast
next
  from comparar_sentimentos_entradas [OF assms(3), of fl]
  obtain r3 analises where r3: "fst (comparar_sentimentos fl pipeline textos s) = Inr r3"
    and an: "campo ''analises'' r3 = Some (JList analises)"
    and len: "length analises = length textos"
    and cada: "\<forall>i<length textos. \<exists>resultados outros d ds.
              fst (inicializar_modelo pipeline s) (textos ! i) = resultados # outros \<and>
              sorted_desc resultados = d # ds \<and>
              analises ! i = JDict
                [(''texto_numero'', JInt (1 + int i)),
                 (''texto'', JStr (textos ! i)),
                 (''emocao_dominante'', JStr (traduzir (label d))),
                 (''emocao_dominante_original'', JStr (label d)),
                 (''confianca'', JStr (porcentagem fl (score d))),
                 (''top_3_emocoes'',
                    JList (map (item_top3 fl) (fatiar (sorted_desc resultados) 3)))]"
    by blast
  have "\<exists>rs outros d.
               fst (inicializar_modelo pipeline s) (textos ! i) = rs # outros \<and>
               d \<in> set rs \<and> list_all (\<lambda>r. score r \<le> score d) rs \<and>
               campo ''emocao_dominante'' (analises ! i) = Some (JStr (traduzir (label d))) \<and>
               campo ''emocao_dominante_original'' (analises ! i) = Some (JStr (label d)) \<and>
               campo ''confianca'' (analises ! i) = Some (JStr (porcentagem fl (score d)))"
    if "i < length textos" for i
  proof -
    from cada that obtain rs outros d ds
      where "fst (inicializar_modelo pipeline s) (textos ! i) = rs # outros"
        and d: "sorted_desc rs = d # ds"
        and "analises ! i = JDict
                [(''texto_numero'', JInt (1 + int i)),
                 (''texto'', JStr (textos ! i)),
                 (''emocao_dominante'', JStr (traduzir (label d))),
                 (''emocao_dominante_original'', JStr (label d)),
                 (''confianca'', JStr (porcentagem fl (score d))),
                 (''top_3_emocoes'',
                    JList (map (item_top3 fl) (fatiar (sorted_desc rs) 3)))]"
      by blast
    with sorted_desc_Cons_max [OF d] show ?thesis
      by (auto simp add: campo_def)
  qed
  with r3 an len
  show "\<exists>r3 analises.
            fst (comparar_sentimentos fl pipeline textos s) = Inr r3 \<and>
            campo ''analises'' r3 = Some (JList analises) \<and>
            length analises = length textos \<and>
            (\<forall>i<length textos. \<exists>rs outros d.
               fst (inicializar_modelo pipeline s) (textos ! i) = rs # outros \<and>
               d \<in> set rs \<and> list_all (\<lambda>r. score r \<le> score d) rs \<and>
               campo ''emocao_dominante'' (analises ! i) = Some (JStr (traduzir (label d))) \<and>
               campo ''emocao_dominante_original'' (analises ! i) = Some (JStr (label d)) \<and>
               campo ''confianca'' (analises ! i) = Some (JStr (porcentagem fl (score d))))"
    by blast
qed


text \<open>Tool 1 returns at the example classifier and \<open>top_k = 5\<close>.\<close>

lemma analisar_sentimento_exemplo_5:
  "\<exists>r. fst (analisar_sentimento fl_exemplo modelo_exemplo texto 5 estado_inicial) = Inr r"
proof -
  have "int (length (fatiar (sorted_desc resultados_exemplo) 5)) = 5"
    by (simp add: length_fatiar length_sorted_desc length_resultados_exemplo)
  then have "fatiar (sorted_desc resultados_exemplo) 5 \<noteq> []" by auto
  then obtain d ds where "fatiar (sorted_desc resultados_exemplo) 5 = d # ds"
    by (cases "fatiar (sorted_desc resultados_exemplo) 5") auto
  with analisar_sentimento_eq [OF modelo_exemplo_contrato, of fl_exemplo texto 5]
  show ?thesis by simp
qed

text \<open>The theorem of C7 at the example classifier, \<open>top_k = 5\<close> and two texts.\<close>

theorem emocao_dominante_maxima_witness:
  "fst (inicializar_modelo modelo_exemplo estado_inicial) ''ok'' = resultados_exemplo # [] \<and>
   length resultados_exemplo = 28 \<and>
   list_all (contrato (fst (inicializar_modelo modelo_exemplo estado_inicial))) [''bom'', ''mau''] \<and>
   (\<exists>d. d \<in> set resultados_exemplo \<and> list_all (\<lambda>r. score r \<le> score d) resultados_exemplo \<and>
      (\<exists>r1. fst (analisar_sentimento fl_exemplo modelo_exemplo ''ok'' 5 estado_inicial) = Inr r1 \<and>
         campo ''emocao_dominante'' r1 = Some (JStr (traduzir (label d))) \<and>
         campo ''emocao_dominante_original'' r1 = Some (JStr (label d)) \<and>
         campo ''confianca_dominante'' r1 = Some (JStr (porcentagem fl_exemplo (score d)))) \<and>
      (\<exists>r2. fst (analisar_sentimento_detalhado fl_exemplo modelo_exemplo ''ok'' estado_inicial) = Inr r2 \<and>
         campo ''emocao_dominante'' r2 = Some (JStr (traduzir (label d))) \<and>
         campo ''emocao_dominante_original'' r2 = Some (JStr (label d)) \<and>
         campo ''confianca_dominante'' r2 = Some (JStr (porcentagem fl_exemplo (score d))))) \<and>
   (\<exists>r3 analises.
      fst (comparar_sentimentos fl_exemplo modelo_exemplo [''bom'', ''mau''] estado_inicial) = Inr r3 \<and>
      campo ''analises'' r3 = Some (JList analises) \<and>
      length analises = 2 \<and>
      (\<exists>d. d \<in> set resultados_exemplo \<and> list_all (\<lambda>r. score r \<le> score d) resultados_exemplo \<and>
         campo ''emocao_dominante'' (analises ! 0) = Some (JStr (traduzir (label d))) \<and>
         campo ''emocao_dominante_original'' (analises ! 0) = Some (JStr (label d)) \<and>
         campo ''confianca'' (analises ! 0) = Some (JStr (porcentagem fl_exemplo (score d)))))"
proof -
  note t = emocao_dominante_maxima [OF modelo_exemplo_contrato length_resultados_exemplo
      contrato_exemplo, where fl = fl_exemplo and top_k = 5 and texto = "''ok''"]
  from t obtain d where d: "d \<in> set resultados_exemplo"
      "list_all (\<lambda>r. score r \<le> score d) resultados_exemplo"
    and r1: "fst (analisar_sentimento fl_exemplo modelo_exemplo ''ok'' 5 estado_inicial)
               = Inl IndexError \<or>
      (\<exists>r1. fst (analisar_sentimento fl_exemplo modelo_exemplo ''ok'' 5 estado_inicial) = Inr r1 \<and>
         campo ''emocao_dominante'' r1 = Some (JStr (traduzir (label d))) \<and>
         campo ''emocao_dominante_original'' r1 = Some (JStr (label d)) \<and>
         campo ''confianca_dominante'' r1 = Some (JStr (porcentagem fl_exemplo (score d))))"
    and r2: "\<exists>r2. fst (analisar_sentimento_detalhado fl_exemplo modelo_exemplo ''ok'' estado_inicial) = Inr r2 \<and>
         campo ''emocao_dominante'' r2 = Some (JStr (traduzir (label d))) \<and>
         campo ''emocao_dominante_original'' r2 = Some (JStr (label d)) \<and>
         campo ''confianca_dominante'' r2 = Some (JStr (porcentagem fl_exemplo (score d)))"
    by blast
  from r1 analisar_sentimento_exemplo_5 [of "''ok''"]
  have r1': "\<exists>r1. fst (analisar_sentimento fl_exemplo modelo_exemplo ''ok'' 5 estado_inicial) = Inr r1 \<and>
         campo ''emocao_dominante'' r1 = Some (JStr (traduzir (label d))) \<and>
         campo ''emocao_dominante_original'' r1 = Some (JStr (label d)) \<and>
         campo ''confianca_dominante'' r1 = Some (JStr (porcentagem fl_exemplo (score d)))"
    by auto
  from t obtain r3 analises where
    r3: "fst (comparar_sentimentos fl_exemplo modelo_exemplo [''bom'', ''mau''] estado_inicial) = Inr r3"
      "campo ''analises'' r3 = Some (JList analises)"
      "length analises = 2"
    and cada: "\<forall>i<2. \<exists>rs outros d.
         fst (inicializar_modelo modelo_exemplo estado_inicial) ([''bom'', ''mau''] ! i) = rs # outros \<and>
         d \<in> set rs \<and> list_all (\<lambda>r. score r \<le> score d) rs \<and>
         campo ''emocao_dominante'' (analises ! i) = Some (JStr (traduzir (label d))) \<and>
         campo ''emocao_dominante_original'' (analises ! i) = Some (JStr (label d)) \<and>
         campo ''confianca'' (analises ! i) = Some (JStr (porcentagem fl_exemplo (score d)))"
    by auto
  have "(0::nat) < 2" by simp
  with cada have "\<exists>rs outros d.
         fst (inicializar_modelo modelo_exemplo estado_inicial) ([''bom'', ''mau''] ! 0) = rs # outros \<and>
         d \<in> set rs \<and> list_all (\<lambda>r. score r \<le> score d) rs \<and>
         campo ''emocao_dominante'' (analises ! 0) = Some (JStr (traduzir (label d))) \<and>
         campo ''emocao_dominante_original'' (analises ! 0) = Some (JStr (label d)) \<and>
         campo ''confianca'' (analises ! 0) = Some (JStr (porcentagem fl_exemplo (score d)))"
    by blast
  then have "\<exists>d. d \<in> set resultados_exemplo \<and>
         list_all (\<lambda>r. score r \<le> score d) resultados_exemplo \<and>
         campo ''emocao_dominante'' (analises ! 0) = Some (JStr (traduzir (label d))) \<and>
         campo ''emocao_dominante_original'' (analises ! 0) = Some (JStr (label d)) \<and>
         campo ''confianca'' (analises ! 0) = Some (JStr (porcentagem fl_exemplo (score d)))"
    by (simp add: modelo_exemplo_contrato)
  with r3 d r1' r2 modelo_exemplo_contrato [of "''ok''"] length_resultados_exemplo contrato_exemplo
  show ?thesis by blast
qed

section \<open>Percentages\<close>

text \<open>
  C6, as amended.  Under the classifier's contract, every entry of \<open>top_emocoes\<close>
  (tool 1, whenever it returns) and of \<open>todas_emocoes\<close> (tool 2) carries, for its scored
  label of score \<open>p\<close>, the number \<open>round(p * 100, 2)\<close> in \<open>probabilidade\<close> and the text of
  that number followed by a percent sign in \<open>porcentagem\<close>.  The entries of
  \<open>top_3_emocoes\<close> (tool 3) carry no number: their \<open>probabilidade\<close> is that text, percent
  sign included, and they have no \<open>porcentagem\<close>.
\<close>

theorem porcentagens_emitidas:
  assumes "fst (inicializar_modelo pipeline s) texto = resultados # outros"
      and "length resultados = 28"
      and "list_all (contrato (fst (inicializar_modelo pipeline s))) textos"
  shows "(fst (analisar_sentimento fl pipeline texto top_k s) = Inl IndexError \<or>
          (\<exists>r1 top.
             fst (analisar_sentimento fl pipeline texto top_k s) = Inr r1 \<and>
             campo ''top_emocoes'' r1 = Some (JList top) \<and>
             list_all2 (\<lambda>j r.
                 campo ''probabilidade'' j =
                   Some (JFloat (round_float fl (mul_float fl (score r) 100) 2)) \<and>
                 campo ''porcentagem'' j =
                   Some (JStr (str_float fl (round_float fl (mul_float fl (score r) 100) 2) @ ''%'')))
               top (fatiar (sorted_desc resultados) top_k))) \<and>
         (\<exists>r2 todas.
            fst (analisar_sentimento_detalhado fl pipeline texto s) = Inr r2 \<and>
            campo ''todas_emocoes'' r2 = Some (JList todas) \<and>
            list_all2 (\<lambda>j r.
                campo ''probabilidade'' j =
                  Some (JFloat (round_float fl (mul_float fl (score r) 100) 2)) \<and>
                campo ''porcentagem'' j =
                  Some (JStr (str_float fl (round_float fl (mul_float fl (score r) 100) 2) @ ''%'')))
              todas (sorted_desc resultados)) \<and>
         (\<exists>r3 analises.
            fst (comparar_sentimentos fl pipeline textos s) = Inr r3 \<and>
            campo ''analises'' r3 = Some (JList analises) \<and>
            length analises = length textos \<and>
            (\<forall>i<length textos. \<exists>rs outros top_3.
               fst (inicializar_modelo pipeline s) (textos ! i) = rs # outros \<and>
               campo ''top_3_emocoes'' (analises ! i) = Some (JList top_3) \<and>
               list_all2 (\<lambda>j r.
                   campo ''probabilidade'' j =
                     Some (JStr (str_float fl (round_float fl (mul_float fl (score r) 100) 2) @ ''%'')) \<and>
                   campo ''porcentagem'' j = None)
                 top_3 (fatiar (sorted_desc rs) 3)))"
proof (intro conjI)
  show "fst (analisar_sentimento fl pipeline texto top_k s) = Inl IndexError \<or>
          (\<exists>r1 top.
             fst (analisar_sentimento fl pipeline texto top_k s) = Inr r1 \<and>
             campo ''top_emocoes'' r1 = Some (JList top) \<and>
             list_all2 (\<lambda>j r.
                 campo ''probabilidade'' j =
                   Some (JFloat (round_float fl (mul_float fl (score r) 100) 2)) \<and>
                 campo ''porcentagem'' j =
                   Some (JStr (str_float fl (round_float fl (mul_float fl (score r) 100) 2) @ ''%'')))
               top (fatiar (sorted_desc resultados) top_k))"
    using analisar_sentimento_casos [OF assms(1), of fl top_k]
    by (auto simp add: campo_def list_all2_map1 list_all2_same item_top_def
        probabilidade_def porcentagem_def)
next
  show "\<exists>r2 todas.
            fst (analisar_sentimento_detalhado fl pipeline texto s) = Inr r2 \<and>
            campo ''todas_emocoes'' r2 = Some (JList todas) \<and>
            list_all2 (\<lambda>j r.
                campo ''probabilidade'' j =
                  Some (JFloat (round_float fl (mul_float fl (score r) 100) 2)) \<and>
                campo ''porcentagem'' j =
                  Some (JStr (str_float fl (round_float fl (mul_float fl (score r) 100) 2) @ ''%'')))
              todas (sorted_desc resultados)"
    using analisar_sentimento_detalhado_contrato [OF assms(1,2), of fl]
    by (auto simp add: campo_def list_all2_map1 list_all2_same item_detalhado_def
        probabilidade_def porcentagem_def)
next
  from comparar_sentimentos_entradas [OF assms(3), of fl]
  obtain r3 analises where r3: "fst (comparar_sentimentos fl pipeline textos s) = Inr r3"
    and an: "campo ''analises'' r3 = Some (JList analises)"
    and len: "length analises = length textos"
    and cada: "\<forall>i<length textos. \<exists>resultados outros d ds.
              fst (inicializar_modelo pipeline s) (textos ! i) = resultados # outros \<and>
              sorted_desc resultados = d # ds \<and>
              analises ! i = JDict
                [(''texto_numero'', JInt (1 + int i)),
                 (''texto'', JStr (textos ! i)),
                 (''emocao_dominante'', JStr (traduzir (label d))),
                 (''emocao_dominante_original'', JStr (label d)),
                 (''confianca'', JStr (porcentagem fl (score d))),
                 (''top_3_emocoes'',
                    JList (map (item_top3 fl) (fatiar (sorted_desc resultados) 3)))]"
    by blast
  have "\<exists>rs outros top_3.
               fst (inicializar_modelo pipeline s) (textos ! i) = rs # outros \<and>
               campo ''top_3_emocoes'' (analises ! i) = Some (JList top_3) \<and>
               list_all2 (\<lambda>j r.
                   campo ''probabilidade'' j =
                     Some (JStr (str_float fl (round_float fl (mul_float fl (score r) 100) 2) @ ''%'')) \<and>
                   campo ''porcentagem'' j = None)
                 top_3 (fatiar (sorted_desc rs) 3)"
    if "i < length textos" for i
  proof -
    from cada that obtain rs outros d ds
      where m: "fst (inicializar_modelo pipeline s) (textos ! i) = rs # outros"
        and "sorted_desc rs = d # ds"
        and a: "analises ! i = JDict
                [(''texto_numero'', JInt (1 + int i)),
                 (''texto'', JStr (textos ! i)),
                 (''emocao_dominante'', JStr (traduzir (label d))),
                 (''emocao_dominante_original'', JStr (label d)),
                 (''confianca'', JStr (porcentagem fl (score d))),
                 (''top_3_emocoes'',
                    JList (map (item_top3 fl) (fatiar (sorted_desc rs) 3)))]"
      by blast
    have "list_all2 (\<lambda>j r.
                   campo ''probabilidade'' j =
                     Some (JStr (str_float fl (round_float fl (mul_float fl (score r) 100) 2) @ ''%'')) \<and>
                   campo ''porcentagem'' j = None)
                 (map (item_top3 fl) (fatiar (sorted_desc rs) 3)) (fatiar (sorted_desc rs) 3)"
      by (simp add: campo_def list_all2_map1 list_all2_same item_top3_def porcentagem_def)
    with m a show ?thesis
      by (simp add: campo_def)
  qed
  with r3 an len
  show "\<exists>r3 analises.
            fst (comparar_sentimentos fl pipeline textos s) = Inr r3 \<and>
            campo ''analises'' r3 = Some (JList analises) \<and>
            length analises = length textos \<and>
            (\<forall>i<length textos. \<exists>rs outros top_3.
               fst (inicializar_modelo pipeline s) (textos ! i) = rs # outros \<and>
               campo ''top_3_emocoes'' (analises ! i) = Some (JList top_3) \<and>
               list_all2 (\<lambda>j r.
                   campo ''probabilidade'' j =
                     Some (JStr (str_float fl (round_float fl (mul_float fl (score r) 100) 2) @ ''%'')) \<and>
                   campo ''porcentagem'' j = None)
                 top_3 (fatiar (sorted_desc rs) 3))"
    by blast
qed

text \<open>The theorem of C6 at the example classifier, \<open>top_k = 5\<close> and two texts.\<close>

theorem porcentagens_emitidas_witness:
  "fst (inicializar_modelo modelo_exemplo estado_inicial) ''ok'' = resultados_exemplo # [] \<and>
   length resultados_exemplo = 28 \<and>
   list_all (contrato (fst (inicializar_modelo modelo_exemplo estado_inicial))) [''bom'', ''mau''] \<and>
   (\<exists>r1 top.
      fst (analisar_sentimento fl_exemplo modelo_exemplo ''ok'' 5 estado_inicial) = Inr r1 \<and>
      campo ''top_emocoes'' r1 = Some (JList top) \<and>
      list_all2 (\<lambda>j r.
          campo ''probabilidade'' j =
            Some (JFloat (round_float fl_exemplo (mul_float fl_exemplo (score r) 100) 2)) \<and>
          campo ''porcentagem'' j =
            Some (JStr (str_float fl_exemplo
              (round_float fl_exemplo (mul_float fl_exemplo (score r) 100) 2) @ ''%'')))
        top (fatiar (sorted_desc resultados_exemplo) 5)) \<and>
   (\<exists>r2 todas.
      fst (analisar_sentimento_detalhado fl_exemplo modelo_exemplo ''ok'' estado_inicial) = Inr r2 \<and>
      campo ''todas_emocoes'' r2 = Some (JList todas) \<and>
      list_all2 (\<lambda>j r.
          campo ''probabilidade'' j =
            Some (JFloat (round_float fl_exemplo (mul_float fl_exemplo (score r) 100) 2)) \<and>
          campo ''porcentagem'' j =
            Some (JStr (str_float fl_exemplo
              (round_float fl_exemplo (mul_float fl_exemplo (score r) 100) 2) @ ''%'')))
        todas (sorted_desc resultados_exemplo)) \<and>
   (\<exists>r3 analises.
      fst (comparar_sentimentos fl_exemplo modelo_exemplo [''bom'', ''mau''] estado_inicial) = Inr r3 \<and>
      campo ''analises'' r3 = Some (JList analises) \<and>
      length analises = 2 \<and>
      (\<exists>top_3.
         campo ''top_3_emocoes'' (analises ! 0) = Some (JList top_3) \<and>
         list_all2 (\<lambda>j r.
             campo ''probabilidade'' j =
               Some (JStr (str_float fl_exemplo
                 (round_float fl_exemplo (mul_float fl_exemplo (score r) 100) 2) @ ''%'')) \<and>
             campo ''porcentagem'' j = None)
           top_3 (fatiar (sorted_desc resultados_exemplo) 3)))"
proof -
  note t = porcentagens_emitidas [OF modelo_exemplo_contrato length_resultados_exemplo
      contrato_exemplo, where fl = fl_exemplo and top_k = 5 and texto = "''ok''"]
  from t analisar_sentimento_exemplo_5 [of "''ok''"]
  have r1: "\<exists>r1 top.
      fst (analisar_sentimento fl_exemplo modelo_exemplo ''ok'' 5 estado_inicial) = Inr r1 \<and>
      campo ''top_emocoes'' r1 = Some (JList top) \<and>
      list_all2 (\<lambda>j r.
          campo ''probabilidade'' j =
            Some (JFloat (round_float fl_exemplo (mul_float fl_exemplo (score r) 100) 2)) \<and>
          campo ''porcentagem'' j =
            Some (JStr (str_float fl_exemplo
              (round_float fl_exemplo (mul_float fl_exemplo (score r) 100) 2) @ ''%'')))
        top (fatiar (sorted_desc resultados_exemplo) 5)"
    by auto
  from t have r2: "\<exists>r2 todas.
      fst (analisar_sentimento_detalhado fl_exemplo modelo_exemplo ''ok'' estado_inicial) = Inr r2 \<and>
      campo ''todas_emocoes'' r2 = Some (JList todas) \<and>
      list_all2 (\<lambda>j r.
          campo ''probabilidade'' j =
            Some (JFloat (round_float fl_exemplo (mul_float fl_exemplo (score r) 100) 2)) \<and>
          campo ''porcentagem'' j =
            Some (JStr (str_float fl_exemplo
              (round_float fl_exemplo (mul_float fl_exemplo (score r) 100) 2) @ ''%'')))
        todas (sorted_desc resultados_exemplo)"
    by blast
  from t obtain r3 analises where
    r3: "fst (comparar_sentimentos fl_exemplo modelo_exemplo [''bom'', ''mau''] estado_inicial) = Inr r3"
      "campo ''analises'' r3 = Some (JList analises)"
      "length analises = 2"
    and cada: "\<forall>i<2. \<exists>rs outros top_3.
         fst (inicializar_modelo modelo_exemplo estado_inicial) ([''bom'', ''mau''] ! i) = rs # outros \<and>
         campo ''top_3_emocoes'' (analises ! i) = Some (JList top_3) \<and>
         list_all2 (\<lambda>j r.
             campo ''probabilidade'' j =
               Some (JStr (str_float fl_exemplo
                 (round_float fl_exemplo (mul_float fl_exemplo (score r) 100) 2) @ ''%'')) \<and>
             campo ''porcentagem'' j = None)
           top_3 (fatiar (sorted_desc rs) 3)"
    by auto
  have "(0::nat) < 2" by simp
  with cada have "\<exists>rs outros top_3.
         fst (inicializar_modelo modelo_exemplo estado_inicial) ([''bom'', ''mau''] ! 0) = rs # outros \<and>
         campo ''top_3_emocoes'' (analises ! 0) = Some (JList top_3) \<and>
         list_all2 (\<lambda>j r.
             campo ''probabilidade'' j =
               Some (JStr (str_float fl_exemplo
                 (round_float fl_exemplo (mul_float fl_exemplo (score r) 100) 2) @ ''%'')) \<and>
             campo ''porcentagem'' j = None)
           top_3 (fatiar (sorted_desc rs) 3)"
    by blast
  then have "\<exists>top_3.
         campo ''top_3_emocoes'' (analises ! 0) = Some (JList top_3) \<and>
         list_all2 (\<lambda>j r.
             campo ''probabilidade'' j =
               Some (JStr (str_float fl_exemplo
                 (round_float fl_exemplo (mul_float fl_exemplo (score r) 100) 2) @ ''%'')) \<and>
             campo ''porcentagem'' j = None)
           top_3 (fatiar (sorted_desc resultados_exemplo) 3)"
    by (simp add: modelo_exemplo_contrato)
  with r3 r1 r2 modelo_exemplo_contrato [of "''ok''"] length_resultados_exemplo contrato_exemplo
  show ?thesis by blast
qed

text \<open>
  C6 as stated fails for tool 3: on the one text \<open>ok\<close> the example classifier's three
  best labels are emitted with a string, not a number, in \<open>probabilidade\<close>.
\<close>

theorem comparar_sentimentos_exemplo:
  "fst (comparar_sentimentos fl_exemplo modelo_exemplo [''ok''] estado_inicial) =
     Inr (JDict
       [(''total_textos_analisados'', JInt 1),
        (''analises'',
         JList
          [JDict
            [(''texto_numero'', JInt 1),
             (''texto'', JStr ''ok''),
             (''emocao_dominante'', JStr ''alegria''),
             (''emocao_dominante_original'', JStr ''joy''),
             (''confianca'', JStr ''91.00%''),
             (''top_3_emocoes'',
              JList
               [JDict
                 [(''emocao'', JStr ''alegria''),
                  (''emocao_original'', JStr ''joy''),
                  (''probabilidade'', JStr ''91.00%'')],
                JDict
                 [(''emocao'', JStr ''neutro''),
                  (''emocao_original'', JStr ''neutral''),
                  (''probabilidade'', JStr ''50.00%'')],
                JDict
                 [(''emocao'', JStr (''empolga'' @ [c_cedilha, a_til] @ ''o'')),
                  (''emocao_original'', JStr ''excitement''),
                  (''probabilidade'', JStr ''34.00%'')]])]])])"
  by (simp add: comparar_sentimentos_def inicializar_modelo_def estado_inicial_def
      modelo_exemplo_def analise_de_def primeiro_def sorted_desc_def resultados_exemplo_def
      TRADUCAO_EMOCOES_def pontos_exemplo_def fatiar_def item_top3_def traduzir_def
      porcentagem_def fl_exemplo_def digito_def)

section \<open>Translation\<close>

lemma distinct_TRADUCAO_EMOCOES: "distinct (map fst TRADUCAO_EMOCOES)"
  by (simp add: TRADUCAO_EMOCOES_def)

lemma traduzir_chave:
  "(l, t) \<in> set TRADUCAO_EMOCOES \<Longrightarrow> traduzir l = t"
  using map_of_is_SomeI [OF distinct_TRADUCAO_EMOCOES] by (simp add: traduzir_def)

lemma traduzir_outra:
  "l \<notin> set (map fst TRADUCAO_EMOCOES) \<Longrightarrow> traduzir l = l"
proof -
  assume "l \<notin> set (map fst TRADUCAO_EMOCOES)"
  then have "map_of TRADUCAO_EMOCOES l = None"
    by (simp add: map_of_eq_None_iff)
  then show ?thesis by (simp add: traduzir_def)
qed


text \<open>
  C9.  The table has 28 entries with distinct keys; \<open>traduzir\<close> gives the table's entry for
  a key and the label itself for any other label.  Under the classifier's contract, every
  entry of \<open>top_emocoes\<close> (tool 1, whenever it returns), of \<open>todas_emocoes\<close> (tool 2) and
  of each \<open>top_3_emocoes\<close> (tool 3) carries the translation of its label in \<open>emocao\<close>
  and the label itself in \<open>emocao_original\<close>.
\<close>

theorem traducao_das_emocoes:
  assumes "fst (inicializar_modelo pipeline s) texto = resultados # outros"
      and "length resultados = 28"
      and "list_all (contrato (fst (inicializar_modelo pipeline s))) textos"
  shows "length TRADUCAO_EMOCOES = 28 \<and> distinct (map fst TRADUCAO_EMOCOES) \<and>
         ((l, t) \<in> set TRADUCAO_EMOCOES \<longrightarrow> traduzir l = t) \<and>
         (l' \<notin> set (map fst TRADUCAO_EMOCOES) \<longrightarrow> traduzir l' = l') \<and>
         (fst (analisar_sentimento fl pipeline texto top_k s) = Inl IndexError \<or>
          (\<exists>r1 top.
             fst (analisar_sentimento fl pipeline texto top_k s) = Inr r1 \<and>
             campo ''top_emocoes'' r1 = Some (JList top) \<and>
             list_all2 (\<lambda>j r.
                 campo ''emocao'' j = Some (JStr (traduzir (label r))) \<and>
                 campo ''emocao_original'' j = Some (JStr (label r)))
               top (fatiar (sorted_desc resultados) top_k))) \<and>
         (\<exists>r2 todas.
            fst (analisar_sentimento_detalhado fl pipeline texto s) = Inr r2 \<and>
            campo ''todas_emocoes'' r2 = Some (JList todas) \<and>
            list_all2 (\<lambda>j r.
                campo ''emocao'' j = Some (JStr (traduzir (label r))) \<and>
                campo ''emocao_original'' j = Some (JStr (label r)))
              todas (sorted_desc resultados)) \<and>
         (\<exists>r3 analises.
            fst (comparar_sentimentos fl pipeline textos s) = Inr r3 \<and>
            campo ''analises'' r3 = Some (JList analises) \<and>
            length analises = length textos \<and>
            (\<forall>i<length textos. \<exists>rs outros top_3.
               fst (inicializar_modelo pipeline s) (textos ! i) = rs # outros \<and>
               campo ''top_3_emocoes'' (analises ! i) = Some (JList top_3) \<and>
               list_all2 (\<lambda>j r.
                   campo ''emocao'' j = Some (JStr (traduzir (label r))) \<and>
                   campo ''emocao_original'' j = Some (JStr (label r)))
                 top_3 (fatiar (sorted_desc rs) 3)))"
proof (intro conjI)
  show "length TRADUCAO_EMOCOES = 28"
    by (simp add: TRADUCAO_EMOCOES_def)
next
  show "distinct (map fst TRADUCAO_EMOCOES)"
    by (rule distinct_TRADUCAO_EMOCOES)
next
  show "(l, t) \<in> set TRADUCAO_EMOCOES \<longrightarrow> traduzir l = t"
    using traduzir_chave by blast
next
  show "l' \<notin> set (map fst TRADUCAO_EMOCOES) \<longrightarrow> traduzir l' = l'"
    using traduzir_outra by blast
next
  show "fst (analisar_sentimento fl pipeline texto top_k s) = Inl IndexError \<or>
          (\<exists>r1 top.
             fst (analisar_sentimento fl pipeline texto top_k s) = Inr r1 \<and>
             campo ''top_emocoes'' r1 = Some (JList top) \<and>
             list_all2 (\<lambda>j r.
                 campo ''emocao'' j = Some (JStr (traduzir (label r))) \<and>
                 campo ''emocao_original'' j = Some (JStr (label r)))
               top (fatiar (sorted_desc resultados) top_k))"
    using analisar_sentimento_casos [OF assms(1), of fl top_k]
    by (auto simp add: campo_def list_all2_map1 list_all2_same item_top_def)
next
  show "\<exists>r2 todas.
            fst (analisar_sentimento_detalhado fl pipeline texto s) = Inr r2 \<and>
            campo ''todas_emocoes'' r2 = Some (JList todas) \<and>
            list_all2 (\<lambda>j r.
                campo ''emocao'' j = Some (JStr (traduzir (label r))) \<and>
                campo ''emocao_original'' j = Some (JStr (label r)))
              todas (sorted_desc resultados)"
    using analisar_sentimento_detalhado_contrato [OF assms(1,2), of fl]
    by (auto simp add: campo_def list_all2_map1 list_all2_same item_detalhado_def)
next
  from comparar_sentimentos_entradas [OF assms(3), of fl]
  obtain r3 analises where r3: "fst (comparar_sentimentos fl pipeline textos s) = Inr r3"
    and an: "campo ''analises'' r3 = Some (JList analises)"
    and len: "length analises = length textos"
    and cada: "\<forall>i<length textos. \<exists>resultados outros d ds.
              fst (inicializar_modelo pipeline s) (textos ! i) = resultados # outros \<and>
              sorted_desc resultados = d # ds \<and>
              analises ! i = JDict
                [(''texto_numero'', JInt (1 + int i)),
                 (''texto'', JStr (textos ! i)),
                 (''emocao_dominante'', JStr (traduzir (label d))),
                 (''emocao_dominante_original'', JStr (label d)),
                 (''confianca'', JStr (porcentagem fl (score d))),
                 (''top_3_emocoes'',
                    JList (map (item_top3 fl) (fatiar (sorted_desc resultados) 3)))]"
    by blast
  have "\<exists>rs outros top_3.
               fst (inicializar_modelo pipeline s) (textos ! i) = rs # outros \<and>
               campo ''top_3_emocoes'' (analises ! i) = Some (JList top_3) \<and>
               list_all2 (\<lambda>j r.
                   campo ''emocao'' j = Some (JStr (traduzir (label r))) \<and>
                   campo ''emocao_original'' j = Some (JStr (label r)))
                 top_3 (fatiar (sorted_desc rs) 3)"
    if "i < length textos" for i
  proof -
    from cada that obtain rs outros d ds
      where m: "fst (inicializar_modelo pipeline s) (textos ! i) = rs # outros"
        and "sorted_desc rs = d # ds"
        and a: "analises ! i = JDict
                [(''texto_numero'', JInt (1 + int i)),
                 (''texto'', JStr (textos ! i)),
                 (''emocao_dominante'', JStr (traduzir (label d))),
                 (''emocao_dominante_original'', JStr (label d)),
                 (''confianca'', JStr (porcentagem fl (score d))),
                 (''top_3_emocoes'',
                    JList (map (item_top3 fl) (fatiar (sorted_desc rs) 3)))]"
      by blast
    have "list_all2 (\<lambda>j r.
                   campo ''emocao'' j = Some (JStr (traduzir (label r))) \<and>
                   campo ''emocao_original'' j = Some (JStr (label r)))
                 (map (item_top3 fl) (fatiar (sorted_desc rs) 3)) (fatiar (sorted_desc rs) 3)"
      by (simp add: campo_def list_all2_map1 list_all2_same item_top3_def)
    with m a show ?thesis
      by (simp add: campo_def)
  qed
  with r3 an len
  show "\<exists>r3 analises.
            fst (comparar_sentimentos fl pipeline textos s) = Inr r3 \<and>
            campo ''analises'' r3 = Some (JList analises) \<and>
            length analises = length textos \<and>
            (\<forall>i<length textos. \<exists>rs outros top_3.
               fst (inicializar_modelo pipeline s) (textos ! i) = rs # outros \<and>
               campo ''top_3_emocoes'' (analises ! i) = Some (JList top_3) \<and>
               list_all2 (\<lambda>j r.
                   campo ''emocao'' j = Some (JStr (traduzir (label r))) \<and>
                   campo ''emocao_original'' j = Some (JStr (label r)))
                 top_3 (fatiar (sorted_desc rs) 3))"
    by blast
qed

lemma joy_na_tabela: "(''joy'', ''alegria'') \<in> set TRADUCAO_EMOCOES"
  by (simp add: TRADUCAO_EMOCOES_def)

lemma calm_fora_da_tabela: "''calm'' \<notin> set (map fst TRADUCAO_EMOCOES)"
  by (simp add: TRADUCAO_EMOCOES_def)

text \<open>
  The theorem of C9 at the example classifier, with \<open>joy\<close> as a key of the table and
  \<open>calm\<close> as a label outside it.
\<close>

theorem traducao_das_emocoes_witness:
  "fst (inicializar_modelo modelo_exemplo estado_inicial) ''ok'' = resultados_exemplo # [] \<and>
   length resultados_exemplo = 28 \<and>
   list_all (contrato (fst (inicializar_modelo modelo_exemplo estado_inicial))) [''bom'', ''mau''] \<and>
   (''joy'', ''alegria'') \<in> set TRADUCAO_EMOCOES \<and> traduzir ''joy'' = ''alegria'' \<and>
   ''calm'' \<notin> set (map fst TRADUCAO_EMOCOES) \<and> traduzir ''calm'' = ''calm'' \<and>
   (\<exists>r1 top.
      fst (analisar_sentimento fl_exemplo modelo_exemplo ''ok'' 5 estado_inicial) = Inr r1 \<and>
      campo ''top_emocoes'' r1 = Some (JList top) \<and>
      list_all2 (\<lambda>j r.
          campo ''emocao'' j = Some (JStr (traduzir (label r))) \<and>
          campo ''emocao_original'' j = Some (JStr (label r)))
        top (fatiar (sorted_desc resultados_exemplo) 5)) \<and>
   (\<exists>r2 todas.
      fst (analisar_sentimento_detalhado fl_exemplo modelo_exemplo ''ok'' estado_inicial) = Inr r2 \<and>
      campo ''todas_emocoes'' r2 = Some (JList todas) \<and>
      list_all2 (\<lambda>j r.
          campo ''emocao'' j = Some (JStr (traduzir (label r))) \<and>
          campo ''emocao_original'' j = Some (JStr (label r)))
        todas (sorted_desc resultados_exemplo)) \<and>
   (\<exists>r3 analises.
      fst (comparar_sentimentos fl_exemplo modelo_exemplo [''bom'', ''mau''] estado_inicial) = Inr r3 \<and>
      campo ''analises'' r3 = Some (JList analises) \<and>
      length analises = 2 \<and>
      (\<exists>top_3.
         campo ''top_3_emocoes'' (analises ! 0) = Some (JList top_3) \<and>
         list_all2 (\<lambda>j r.
             campo ''emocao'' j = Some (JStr (traduzir (label r))) \<and>
             campo ''emocao_original'' j = Some (JStr (label r)))
           top_3 (fatiar (sorted_desc resultados_exemplo) 3)))"
proof -
  note t = traducao_das_emocoes [OF modelo_exemplo_contrato length_resultados_exemplo
      contrato_exemplo, where fl = fl_exemplo and top_k = 5 and texto = "''ok''"
      and l = "''joy''" and t = "''alegria''" and l' = "''calm''"]
  from t joy_na_tabela have joy: "traduzir ''joy'' = ''alegria''" by blast
  from t calm_fora_da_tabela have calm: "traduzir ''calm'' = ''calm''" by blast
  from t analisar_sentimento_exemplo_5 [of "''ok''"]
  have r1: "\<exists>r1 top.
      fst (analisar_sentimento fl_exemplo modelo_exemplo ''ok'' 5 estado_inicial) = Inr r1 \<and>
      campo ''top_emocoes'' r1 = Some (JList top) \<and>
      list_all2 (\<lambda>j r.
          campo ''emocao'' j = Some (JStr (traduzir (label r))) \<and>
          campo ''emocao_original'' j = Some (JStr (label r)))
        top (fatiar (sorted_desc resultados_exemplo) 5)"
    by auto
  from t have r2: "\<exists>r2 todas.
      fst (analisar_sentimento_detalhado fl_exemplo modelo_exemplo ''ok'' estado_inicial) = Inr r2 \<and>
      campo ''todas_emocoes'' r2 = Some (JList todas) \<and>
      list_all2 (\<lambda>j r.
          campo ''emocao'' j = Some (JStr (traduzir (label r))) \<and>
          campo ''emocao_original'' j = Some (JStr (label r)))
        todas (sorted_desc resultados_exemplo)"
    by blast
  from t have "\<exists>r3 analises.
      fst (comparar_sentimentos fl_exemplo modelo_exemplo [''bom'', ''mau''] estado_inicial) = Inr r3 \<and>
      campo ''analises'' r3 = Some (JList analises) \<and>
      length analises = length [''bom'', ''mau''] \<and>
      (\<forall>i<length [''bom'', ''mau'']. \<exists>rs outros top_3.
         fst (inicializar_modelo modelo_exemplo estado_inicial) ([''bom'', ''mau''] ! i) = rs # outros \<and>
         campo ''top_3_emocoes'' (analises ! i) = Some (JList top_3) \<and>
         list_all2 (\<lambda>j r.
             campo ''emocao'' j = Some (JStr (traduzir (label r))) \<and>
             campo ''emocao_original'' j = Some (JStr (label r)))
           top_3 (fatiar (sorted_desc rs) 3))"
    by blast
  then obtain r3 analises where
    r3: "fst (comparar_sentimentos fl_exemplo modelo_exemplo [''bom'', ''mau''] estado_inicial) = Inr r3"
      "campo ''analises'' r3 = Some (JList analises)"
      "length analises = 2"
    and cada: "\<forall>i<2. \<exists>rs outros top_3.
         fst (inicializar_modelo modelo_exemplo estado_inicial) ([''bom'', ''mau''] ! i) = rs # outros \<and>
         campo ''top_3_emocoes'' (analises ! i) = Some (JList top_3) \<and>
         list_all2 (\<lambda>j r.
             campo ''emocao'' j = Some (JStr (traduzir (label r))) \<and>
             campo ''emocao_original'' j = Some (JStr (label r)))
           top_3 (fatiar (sorted_desc rs) 3)"
    by auto
  have "(0::nat) < 2" by simp
  with cada have "\<exists>rs outros top_3.
         fst (inicializar_modelo modelo_exemplo estado_inicial) ([''bom'', ''mau''] ! 0) = rs # outros \<and>
         campo ''top_3_emocoes'' (analises ! 0) = Some (JList top_3) \<and>
         list_all2 (\<lambda>j r.
             campo ''emocao'' j = Some (JStr (traduzir (label r))) \<and>
             campo ''emocao_original'' j = Some (JStr (label r)))
           top_3 (fatiar (sorted_desc rs) 3)"
    by blast
  then have "\<exists>top_3.
         campo ''top_3_emocoes'' (analises ! 0) = Some (JList top_3) \<and>
         list_all2 (\<lambda>j r.
             campo ''emocao'' j = Some (JStr (traduzir (label r))) \<and>
             campo ''emocao_original'' j = Some (JStr (label r)))
           top_3 (fatiar (sorted_desc resultados_exemplo) 3)"
    by (simp add: modelo_exemplo_contrato)
  with r3 r1 r2 joy calm joy_na_tabela calm_fora_da_tabela
    modelo_exemplo_contrato [of "''ok''"] length_resultados_exemplo contrato_exemplo
  show ?thesis by blast
qed

end
